theory Spec2Isabelle
  imports Complex_Main "HOL-Library.List_Lexorder" "HOL-Library.Product_Lexorder"
begin

section \<open>Numeric model\<close>

text \<open>
  The arrays of the program hold 64-bit floating point numbers. They are modelled as
  lists of real numbers, and arithmetic is exact; the rounding of float64 is written out
  only in the two Weber-symbol conversions, whose round trip is claimed to be exact. An
  array whose last axis has length 3 (or 4) is a list of triples (or quadruples); the
  leading axes are flattened into the list.
\<close>

type_synonym idx3 = "real \<times> real \<times> real"
type_synonym idx4 = "real \<times> real \<times> real \<times> real"

text \<open>The exceptions the modelled code can raise.\<close>

datatype error =
  ValueError string
  | KeyError string
  | AttributeError
  | IndexError
  | ZeroDivisionError
  | LinAlgError

text \<open>\<^verbatim>\<open>str.lower\<close> on ASCII text.\<close>

definition lower_char :: "char \<Rightarrow> char" where
  "lower_char c =
     (let n = (of_char c :: nat) in if 65 \<le> n \<and> n \<le> 90 then char_of (n + 32) else c)"

definition lower :: "string \<Rightarrow> string" where
  "lower s = map lower_char s"

text \<open>\<^verbatim>\<open>int(x)\<close> of a finite float: truncation towards zero.\<close>

definition py_int :: "real \<Rightarrow> int" where
  "py_int x = (if 0 \<le> x then \<lfloor>x\<rfloor> else \<lceil>x\<rceil>)"

definition deg2rad :: "real \<Rightarrow> real" where
  "deg2rad x = x * pi / 180"

text \<open>\<^verbatim>\<open>numpy.round\<close> (and the rounding of the hardware): to the nearest integer, a tie to
  the even one.\<close>

definition rint :: "real \<Rightarrow> int" where
  "rint x =
     (let f = \<lfloor>x\<rfloor>; r = x - of_int f
      in if r < 1 / 2 then f else if 1 / 2 < r then f + 1 else if even f then f else f + 1)"

definition np_round :: "real \<Rightarrow> real" where
  "np_round x = of_int (rint x)"

text \<open>
  The rounding of one binary64 operation: the exact result is rounded to the nearest
  number with a 53-bit significand, a tie to the even significand (overflow and
  subnormal numbers are left out).
\<close>

definition fl64 :: "real \<Rightarrow> real" where
  "fl64 x =
     (if x = 0 then 0
      else let e = \<lfloor>log 2 \<bar>x\<bar>\<rfloor> - 52 in of_int (rint (x / 2 powi e)) * 2 powi e)"

text \<open>
  \<^verbatim>\<open>numpy.arccos\<close> gives NaN outside \<open>[-1, 1]\<close> (\<open>None\<close> here), and every comparison
  with NaN is false.
\<close>

definition np_arccos :: "real \<Rightarrow> real option" where
  "np_arccos x = (if - 1 \<le> x \<and> x \<le> 1 then Some (arccos x) else None)"

definition gt_nan :: "real \<Rightarrow> real option \<Rightarrow> bool" where
  "gt_nan x y = (case y of None \<Rightarrow> False | Some t \<Rightarrow> x > t)"

text \<open>\<^verbatim>\<open>numpy.allclose(xs, 0, atol=atol)\<close>: every entry within \<open>atol\<close> of zero (the relative
  part of the tolerance is a multiple of the reference value \<open>0\<close>).\<close>

definition allclose_zero :: "real list \<Rightarrow> real \<Rightarrow> bool" where
  "allclose_zero xs atol = list_all (\<lambda>x. \<bar>x\<bar> \<le> atol) xs"

text \<open>\<^verbatim>\<open>numpy.argmin\<close> of a non-empty array: the first position of the least entry.\<close>

fun argmin_from :: "real \<Rightarrow> nat \<Rightarrow> nat \<Rightarrow> real list \<Rightarrow> nat" where
  "argmin_from best pos i [] = pos"
| "argmin_from best pos i (x # xs) =
     (if x < best then argmin_from x i (Suc i) xs else argmin_from best pos (Suc i) xs)"

definition argmin :: "real list \<Rightarrow> nat" where
  "argmin xs = (case xs of [] \<Rightarrow> 0 | x # rest \<Rightarrow> argmin_from x 0 1 rest)"

section \<open>Index conversions of \<^verbatim>\<open>orix/vector/miller.py\<close>\<close>

text \<open>
  \<^verbatim>\<open>_hkl2hkil\<close>, \<^verbatim>\<open>_hkil2hkl\<close>, \<^verbatim>\<open>_uvw2UVTW\<close> and \<^verbatim>\<open>_UVTW2uvw\<close> (the leading underscore of
  the source names is dropped). The code of the first two only copies, adds and negates,
  so the model is stated for any number type.
\<close>

definition hkl2hkil1 :: "'a::{plus,uminus} \<times> 'a \<times> 'a \<Rightarrow> 'a \<times> 'a \<times> 'a \<times> 'a" where
  "hkl2hkil1 hkl = (case hkl of (h, k, l) \<Rightarrow> (h, k, - (h + k), l))"

definition hkl2hkil :: "('a::{plus,uminus} \<times> 'a \<times> 'a) list \<Rightarrow> ('a \<times> 'a \<times> 'a \<times> 'a) list" where
  "hkl2hkil hkl = map hkl2hkil1 hkl"

definition hkil2hkl1 :: "'a \<times> 'a \<times> 'a \<times> 'a \<Rightarrow> 'a \<times> 'a \<times> 'a" where
  "hkil2hkl1 hkil = (case hkil of (h, k, i, l) \<Rightarrow> (h, k, l))"

definition hkil2hkl :: "('a \<times> 'a \<times> 'a \<times> 'a) list \<Rightarrow> ('a \<times> 'a \<times> 'a) list" where
  "hkil2hkl hkil = map hkil2hkl1 hkil"

definition is_mtex :: "string option \<Rightarrow> bool" where
  "is_mtex convention = (case convention of None \<Rightarrow> False | Some c \<Rightarrow> lower c = ''mtex'')"

text \<open>
  In the two Weber-symbol conversions every arithmetic operation is followed by the
  rounding \<open>rnd\<close>: \<open>rnd = id\<close> is exact arithmetic, \<open>rnd = fl64\<close> is the arithmetic of the
  float64 arrays the code fills. (Negation is exact in both.)
\<close>

definition uvw2UVTW1 :: "(real \<Rightarrow> real) \<Rightarrow> string option \<Rightarrow> idx3 \<Rightarrow> idx4" where
  "uvw2UVTW1 rnd convention uvw =
     (case uvw of (u, v, w) \<Rightarrow>
        (let U = rnd (rnd (rnd (2 * u) - v) / 3);
             V = rnd (rnd (rnd (2 * v) - u) / 3);
             T = rnd (- rnd (u + v) / 3);
             W = w
         in if is_mtex convention then (rnd (U * 3), rnd (V * 3), rnd (T * 3), rnd (W * 3))
            else (U, V, T, W)))"

definition uvw2UVTW :: "(real \<Rightarrow> real) \<Rightarrow> idx3 list \<Rightarrow> string option \<Rightarrow> idx4 list" where
  "uvw2UVTW rnd uvw convention = map (uvw2UVTW1 rnd convention) uvw"

definition UVTW2uvw1 :: "(real \<Rightarrow> real) \<Rightarrow> string option \<Rightarrow> idx4 \<Rightarrow> idx3" where
  "UVTW2uvw1 rnd convention UVTW =
     (case UVTW of (U, V, T, W) \<Rightarrow>
        (let u = rnd (rnd (2 * U) + V);
             v = rnd (U + rnd (2 * V));
             w = W
         in if is_mtex convention then (rnd (u / 3), rnd (v / 3), rnd (w / 3)) else (u, v, w)))"

definition UVTW2uvw :: "(real \<Rightarrow> real) \<Rightarrow> idx4 list \<Rightarrow> string option \<Rightarrow> idx3 list" where
  "UVTW2uvw rnd UVTW convention = map (UVTW2uvw1 rnd convention) UVTW"

section \<open>The sampler of \<^verbatim>\<open>orix/sampling/SO3_sampling.py\<close>\<close>

type_synonym quat = "real \<times> real \<times> real \<times> real"

definition quat_norm :: "quat \<Rightarrow> real" where
  "quat_norm q = (case q of (a, b, c, d) \<Rightarrow> sqrt (a\<^sup>2 + b\<^sup>2 + c\<^sup>2 + d\<^sup>2))"

text \<open>
  \<^verbatim>\<open>numpy.linspace(start, stop, num, endpoint=True)\<close>: \<open>num\<close> evenly spaced samples, the
  last one \<open>stop\<close>; a single sample is \<open>start\<close>. A negative \<open>num\<close> is refused by numpy; the
  sampler below checks for it before it calls \<open>linspace\<close>.
\<close>

definition linspace :: "real \<Rightarrow> real \<Rightarrow> int \<Rightarrow> real list" where
  "linspace start stop num =
     (if num \<le> 0 then []
      else if num = 1 then [start]
      else map (\<lambda>i. start + real i * ((stop - start) / real_of_int (num - 1))) [0 ..< nat num])"

text \<open>
  \<^verbatim>\<open>numpy.meshgrid(u_1, u_2, u_3)\<close> followed by \<^verbatim>\<open>flatten()\<close> of each of the three grids:
  with the default \<^verbatim>\<open>indexing="xy"\<close> the grids have shape \<open>(len u_2, len u_1, len u_3)\<close>, so
  the flattened triples run over \<open>u_2\<close> slowest and \<open>u_3\<close> fastest.
\<close>

definition meshgrid_flat :: "real list \<Rightarrow> real list \<Rightarrow> real list \<Rightarrow> (real \<times> real \<times> real) list" where
  "meshgrid_flat u_1 u_2 u_3 =
     concat (map (\<lambda>y. concat (map (\<lambda>x. map (\<lambda>z. (x, y, z)) u_3) u_1)) u_2)"

text \<open>The conversion of one parameter triple "into the final form used".\<close>

definition shoemake :: "real \<times> real \<times> real \<Rightarrow> quat" where
  "shoemake m =
     (case m of (mesh1, mesh2, mesh3) \<Rightarrow>
        (let a = sqrt (1 - mesh1);
             b = sqrt mesh1;
             s_2 = sin (2 * pi * mesh2); c_2 = cos (2 * pi * mesh2);
             s_3 = sin (2 * pi * mesh3); c_3 = cos (2 * pi * mesh3)
         in (a * s_2, a * c_2, b * s_3, b * c_3)))"

definition num_steps_of :: "real \<Rightarrow> int" where
  "num_steps_of resolution = py_int (of_int \<lceil>360 / resolution\<rceil>)"

text \<open>The branch of the sampler taken when \<open>max_angle\<close> is given: the two restricted axes.\<close>

definition e_1_min_of :: "real \<Rightarrow> real" where
  "e_1_min_of max_angle = cos (deg2rad (max_angle / 2))"

definition u_1_max_of :: "real \<Rightarrow> real" where
  "u_1_max_of max_angle = 1 - (e_1_min_of max_angle)\<^sup>2"

definition u_2_min_of :: "real \<Rightarrow> real" where
  "u_2_min_of max_angle = arcsin (e_1_min_of max_angle) / 2 / pi"

definition num_1_of :: "int \<Rightarrow> real \<Rightarrow> int" where
  "num_1_of num_steps max_angle =
     (if py_int (of_int num_steps * u_1_max_of max_angle) > 1
      then py_int (of_int num_steps * u_1_max_of max_angle) else 2)"

definition num_2_of :: "int \<Rightarrow> real \<Rightarrow> int" where
  "num_2_of num_steps max_angle =
     (if py_int (of_int num_steps * (1 - u_2_min_of max_angle)) > 1
      then py_int (of_int num_steps * (1 - u_2_min_of max_angle)) else 2)"

definition u_1_axis :: "int \<Rightarrow> real option \<Rightarrow> real list" where
  "u_1_axis num_steps max_angle =
     (case max_angle of
        None \<Rightarrow> linspace 0 1 num_steps
      | Some m \<Rightarrow> linspace 0 (u_1_max_of m) (num_1_of num_steps m))"

definition u_2_axis :: "int \<Rightarrow> real option \<Rightarrow> real list" where
  "u_2_axis num_steps max_angle =
     (case max_angle of
        None \<Rightarrow> linspace 0 1 num_steps
      | Some m \<Rightarrow> linspace (u_2_min_of m) 1 (num_2_of num_steps m))"

definition samples_message :: string where
  "samples_message = ''Number of samples must be non-negative''"

text \<open>
  \<^verbatim>\<open>_three_uniform_samples_method\<close> up to the array \<^verbatim>\<open>q.T\<close>; the wrapping into a
  \<^verbatim>\<open>Rotation\<close> and its \<^verbatim>\<open>unique()\<close> are not part of these sources. A zero resolution makes
  the division raise, and a negative one gives a negative number of steps, which
  \<^verbatim>\<open>numpy.linspace\<close> refuses (the restricted axes have at least two samples, so it is the
  third axis, or an unrestricted one, that is refused).
\<close>

definition three_uniform_samples_method :: "real \<Rightarrow> real option \<Rightarrow> error + quat list" where
  "three_uniform_samples_method resolution max_angle =
     (if resolution = 0 then Inl ZeroDivisionError
      else let num_steps = num_steps_of resolution
           in if num_steps < 0 then Inl (ValueError samples_message)
              else let u_1 = u_1_axis num_steps max_angle;
                       u_2 = u_2_axis num_steps max_angle;
                       u_3 = linspace 0 1 num_steps
                   in Inr (map shoemake (meshgrid_flat u_1 u_2 u_3)))"

section \<open>Lattice vectors: \<^verbatim>\<open>orix/vector/miller.py\<close>\<close>

type_synonym vec3 = "real \<times> real \<times> real"
type_synonym mat3 = "vec3 \<times> vec3 \<times> vec3"

text \<open>
  The lattice is an object of the \<^verbatim>\<open>diffpy.structure\<close> library; the record holds the
  attributes the code reads: the lengths \<open>a\<close>, \<open>b\<close>, \<open>c\<close> (from \<^verbatim>\<open>abcABG()\<close>), the cosines
  \<open>ca\<close>, \<open>cb\<close>, \<open>cg\<close>, the sine \<open>sg\<close> and the cell volume.
\<close>

record lattice =
  lat_a :: real
  lat_b :: real
  lat_c :: real
  lat_ca :: real
  lat_cb :: real
  lat_cg :: real
  lat_sg :: real
  lat_volume :: real

text \<open>\<^verbatim>\<open>_direct_structure_matrix\<close>; the two divisions are divisions of Python floats, which
  raise on a zero divisor.\<close>

definition direct_structure_matrix :: "lattice \<Rightarrow> error + mat3" where
  "direct_structure_matrix lattice =
     (let a = lat_a lattice; b = lat_b lattice; c = lat_c lattice;
          ca = lat_ca lattice; cb = lat_cb lattice; cg = lat_cg lattice;
          sg = lat_sg lattice
      in if sg = 0 \<or> a * b * sg = 0 then Inl ZeroDivisionError
         else Inr ((a, b * cg, c * cb),
                   (0, b * sg, - c * (cb * cg - ca) / sg),
                   (0, 0, lat_volume lattice / (a * b * sg))))"

definition det3 :: "mat3 \<Rightarrow> real" where
  "det3 m =
     (case m of ((a, b, c), (d, e, f), (g, h, i)) \<Rightarrow>
        a * (e * i - f * h) - b * (d * i - f * g) + c * (d * h - e * g))"

text \<open>\<^verbatim>\<open>numpy.linalg.inv\<close>: the inverse matrix, \<^verbatim>\<open>LinAlgError\<close> for a singular one.\<close>

definition linalg_inv :: "mat3 \<Rightarrow> error + mat3" where
  "linalg_inv m =
     (case m of ((a, b, c), (d, e, f), (g, h, i)) \<Rightarrow>
        (let dt = det3 m
         in if dt = 0 then Inl LinAlgError
            else Inr (((e * i - f * h) / dt, (c * h - b * i) / dt, (b * f - c * e) / dt),
                      ((f * g - d * i) / dt, (a * i - c * g) / dt, (c * d - a * f) / dt),
                      ((d * h - e * g) / dt, (b * g - a * h) / dt, (a * e - b * d) / dt))))"

definition transpose3 :: "mat3 \<Rightarrow> mat3" where
  "transpose3 m =
     (case m of ((a, b, c), (d, e, f), (g, h, i)) \<Rightarrow> ((a, d, g), (b, e, h), (c, f, i)))"

definition reciprocal_structure_matrix :: "lattice \<Rightarrow> error + mat3" where
  "reciprocal_structure_matrix lattice =
     (case direct_structure_matrix lattice of
        Inl e \<Rightarrow> Inl e
      | Inr dsm \<Rightarrow> (case linalg_inv dsm of Inl e \<Rightarrow> Inl e | Inr m \<Rightarrow> Inr (transpose3 m)))"

text \<open>Matrix times column vector (\<^verbatim>\<open>m.dot(v.T).T\<close>) and row vector times matrix (\<^verbatim>\<open>v.dot(m)\<close>).\<close>

definition mat_vec :: "mat3 \<Rightarrow> vec3 \<Rightarrow> vec3" where
  "mat_vec m v =
     (case m of ((a, b, c), (d, e, f), (g, h, i)) \<Rightarrow>
        (case v of (x, y, z) \<Rightarrow>
           (a * x + b * y + c * z, d * x + e * y + f * z, g * x + h * y + i * z)))"

definition vec_mat :: "vec3 \<Rightarrow> mat3 \<Rightarrow> vec3" where
  "vec_mat v m = mat_vec (transpose3 m) v"

definition uvw2xyz :: "idx3 list \<Rightarrow> lattice \<Rightarrow> error + vec3 list" where
  "uvw2xyz uvw lattice =
     (case direct_structure_matrix lattice of
        Inl e \<Rightarrow> Inl e | Inr dsm \<Rightarrow> Inr (map (mat_vec dsm) uvw))"

definition xyz2uvw :: "vec3 list \<Rightarrow> lattice \<Rightarrow> error + idx3 list" where
  "xyz2uvw xyz lattice =
     (case reciprocal_structure_matrix lattice of
        Inl e \<Rightarrow> Inl e | Inr rsm \<Rightarrow> Inr (map (\<lambda>v. vec_mat v rsm) xyz))"

definition hkl2xyz :: "idx3 list \<Rightarrow> lattice \<Rightarrow> error + vec3 list" where
  "hkl2xyz hkl lattice =
     (case reciprocal_structure_matrix lattice of
        Inl e \<Rightarrow> Inl e | Inr rsm \<Rightarrow> Inr (map (mat_vec rsm) hkl))"

definition xyz2hkl :: "vec3 list \<Rightarrow> lattice \<Rightarrow> error + idx3 list" where
  "xyz2hkl xyz lattice =
     (case direct_structure_matrix lattice of
        Inl e \<Rightarrow> Inl e | Inr dsm \<Rightarrow> Inr (map (\<lambda>v. vec_mat v dsm) xyz))"

text \<open>\<^verbatim>\<open>_check_hkil\<close> and \<^verbatim>\<open>_check_UVTW\<close>: the sum over the first three components of every
  quadruple is compared with zero.\<close>

definition sum_first3 :: "idx4 \<Rightarrow> real" where
  "sum_first3 q = (case q of (h, k, i, l) \<Rightarrow> h + k + i)"

definition hkil_message :: string where
  "hkil_message = ''The Miller-Bravais indices convention h + k + i = 0 is not satisfied''"

definition UVTW_message :: string where
  "UVTW_message = ''The Miller-Bravais indices convention U + V + T = 0 is not satisfied''"

definition check_hkil :: "idx4 list \<Rightarrow> error + unit" where
  "check_hkil hkil =
     (if \<not> allclose_zero (map sum_first3 hkil) (1 / 10 ^ 4)
      then Inl (ValueError hkil_message) else Inr ())"

definition check_UVTW :: "idx4 list \<Rightarrow> error + unit" where
  "check_UVTW UVTW =
     (if \<not> allclose_zero (map sum_first3 UVTW) (1 / 10 ^ 4)
      then Inl (ValueError UVTW_message) else Inr ())"

text \<open>
  A phase, as the class reads it: the point group \<^verbatim>\<open>phase.point_group\<close>, a batch of \<open>M\<close>
  symmetry operations, each given by its action on a Cartesian vector, and the lattice
  \<^verbatim>\<open>phase.structure.lattice\<close>.
\<close>

record phase =
  point_group :: "(vec3 \<Rightarrow> vec3) list"
  structure_lattice :: lattice

text \<open>
  The class \<^verbatim>\<open>Miller\<close> extends \<^verbatim>\<open>orix.vector.Vector3d\<close>, which is not part of these
  sources. The three inherited methods the class calls through \<^verbatim>\<open>super()\<close> are
  parameters of the model: \<^verbatim>\<open>unit\<close>, \<^verbatim>\<open>unique\<close> (the unique vectors and the positions
  they were found at) and \<^verbatim>\<open>cross\<close> (which can refuse shapes that do not broadcast).
\<close>

record vector3d =
  v3d_unit :: "vec3 list \<Rightarrow> vec3 list"
  v3d_unique :: "vec3 list \<Rightarrow> vec3 list \<times> nat list"
  v3d_cross :: "vec3 list \<Rightarrow> vec3 list \<Rightarrow> error + vec3 list"

text \<open>An instance: the Cartesian \<^verbatim>\<open>data\<close> (a one-dimensional batch), the phase reference
  and the coordinate format.\<close>

record miller =
  data :: "vec3 list"
  phase :: "phase option"
  coordinate_format :: string

definition formats :: "string list" where
  "formats = [''xyz'', ''uvw'', ''UVTW'', ''hkl'', ''hkil'']"

definition phase_message :: string where
  "phase_message = ''A phase with a crystal lattice and symmetry must be passed''"

definition coordinates_message :: string where
  "coordinates_message = ''Either uvw, UVTW, hkl, hkil, or xyz coordinates must be passed''"

definition formats_message :: string where
  "formats_message = ''Available coordinate formats are xyz, uvw, UVTW, hkl, hkil''"

text \<open>The setter of \<^verbatim>\<open>coordinate_format\<close>, as the last step of the constructor.\<close>

definition set_coordinate_format :: "vec3 list \<Rightarrow> phase option \<Rightarrow> string \<Rightarrow> error + miller" where
  "set_coordinate_format xyz ph v =
     (if v \<notin> set formats then Inl (ValueError formats_message)
      else Inr \<lparr>data = xyz, phase = ph, coordinate_format = v\<rparr>)"

definition finish_init ::
  "error + vec3 list \<Rightarrow> string \<Rightarrow> phase option \<Rightarrow> string option \<Rightarrow> error + miller" where
  "finish_init xyz in_coords ph fmt =
     (case xyz of
        Inl e \<Rightarrow> Inl e
      | Inr d \<Rightarrow>
          set_coordinate_format d ph (case fmt of None \<Rightarrow> in_coords | Some f \<Rightarrow> f))"

text \<open>\<^verbatim>\<open>Miller.__init__\<close>. With \<open>xyz\<close> absent the phase is present in every branch that reads
  its lattice (the first check).\<close>

definition Miller_init ::
  "vec3 list option \<Rightarrow> idx3 list option \<Rightarrow> idx4 list option \<Rightarrow> idx3 list option \<Rightarrow>
   idx4 list option \<Rightarrow> phase option \<Rightarrow> string option \<Rightarrow> error + miller" where
  "Miller_init xyz uvw UVTW hkl hkil ph fmt =
     (if xyz = None \<and> ph = None then Inl (ValueError phase_message)
      else case xyz of
        Some d \<Rightarrow> finish_init (Inr d) ''xyz'' ph fmt
      | None \<Rightarrow>
         (case ph of
            None \<Rightarrow> Inl (ValueError phase_message)
          | Some p \<Rightarrow>
             (case uvw of
                Some i \<Rightarrow> finish_init (uvw2xyz i (structure_lattice p)) ''uvw'' ph fmt
              | None \<Rightarrow>
                 (case UVTW of
                    Some i \<Rightarrow>
                      (case check_UVTW i of
                         Inl e \<Rightarrow> Inl e
                       | Inr _ \<Rightarrow>
                           finish_init (uvw2xyz (UVTW2uvw id i None) (structure_lattice p))
                             ''UVTW'' ph fmt)
                  | None \<Rightarrow>
                     (case hkl of
                        Some i \<Rightarrow> finish_init (hkl2xyz i (structure_lattice p)) ''hkl'' ph fmt
                      | None \<Rightarrow>
                         (case hkil of
                            Some i \<Rightarrow>
                              (case check_hkil i of
                                 Inl e \<Rightarrow> Inl e
                               | Inr _ \<Rightarrow>
                                   finish_init (hkl2xyz (hkil2hkl i) (structure_lattice p))
                                     ''hkil'' ph fmt)
                          | None \<Rightarrow> Inl (ValueError coordinates_message)))))))"

text \<open>
  NumPy indexing of the batch, \<^verbatim>\<open>self.data[key]\<close>: one position (negative ones count from
  the end), a slice with unit step, a boolean mask, or a list of positions.
\<close>

datatype key = KInt int | KSlice "int option" "int option" | KMask "bool list" | KList "int list"

definition norm_index :: "nat \<Rightarrow> int \<Rightarrow> nat option" where
  "norm_index n i =
     (let j = (if i < 0 then int n + i else i)
      in if 0 \<le> j \<and> j < int n then Some (nat j) else None)"

definition clamp_index :: "nat \<Rightarrow> int \<Rightarrow> nat" where
  "clamp_index n i = (let j = (if i < 0 then int n + i else i) in nat (max 0 (min (int n) j)))"

fun take_positions :: "'a list \<Rightarrow> int list \<Rightarrow> error + 'a list" where
  "take_positions xs [] = Inr []"
| "take_positions xs (i # is) =
     (case norm_index (length xs) i of
        None \<Rightarrow> Inl IndexError
      | Some j \<Rightarrow>
          (case take_positions xs is of Inl e \<Rightarrow> Inl e | Inr ys \<Rightarrow> Inr (xs ! j # ys)))"

definition np_getitem :: "'a list \<Rightarrow> key \<Rightarrow> error + 'a list" where
  "np_getitem xs k =
     (case k of
        KInt i \<Rightarrow> take_positions xs [i]
      | KSlice start stop \<Rightarrow>
          (let lo = (case start of None \<Rightarrow> 0 | Some i \<Rightarrow> clamp_index (length xs) i);
               hi = (case stop of None \<Rightarrow> length xs | Some i \<Rightarrow> clamp_index (length xs) i)
           in Inr (drop lo (take hi xs)))
      | KMask bs \<Rightarrow>
          (if length bs \<noteq> length xs then Inl IndexError
           else Inr (map fst (filter snd (zip xs bs))))
      | KList is \<Rightarrow> take_positions xs is)"

text \<open>\<^verbatim>\<open>Miller.__getitem__\<close>, the property \<^verbatim>\<open>unit\<close> and \<^verbatim>\<open>cross\<close>.\<close>

definition Miller_getitem :: "miller \<Rightarrow> key \<Rightarrow> error + miller" where
  "Miller_getitem self k =
     (case np_getitem (data self) k of
        Inl e \<Rightarrow> Inl e
      | Inr d \<Rightarrow>
          Miller_init (Some d) None None None None (phase self) (Some (coordinate_format self)))"

definition Miller_unit :: "vector3d \<Rightarrow> miller \<Rightarrow> error + miller" where
  "Miller_unit base self =
     Miller_init (Some (v3d_unit base (data self))) None None None None (phase self)
       (Some (coordinate_format self))"

definition new_fmt :: "string \<rightharpoonup> string" where
  "new_fmt = [''hkl'' \<mapsto> ''uvw'', ''uvw'' \<mapsto> ''hkl'', ''hkil'' \<mapsto> ''UVTW'', ''UVTW'' \<mapsto> ''hkil'']"

text \<open>The arguments of the constructor call are evaluated from left to right: the
  inherited cross product first, the lookup of the new format last.\<close>

definition Miller_cross :: "vector3d \<Rightarrow> miller \<Rightarrow> vec3 list \<Rightarrow> error + miller" where
  "Miller_cross base self other =
     (case v3d_cross base (data self) other of
        Inl e \<Rightarrow> Inl e
      | Inr d \<Rightarrow>
          (case new_fmt (coordinate_format self) of
             None \<Rightarrow> Inl (KeyError (coordinate_format self))
           | Some f \<Rightarrow> Miller_init (Some d) None None None None (phase self) (Some f)))"

text \<open>
  \<^verbatim>\<open>Miller.symmetrise\<close>. \<^verbatim>\<open>operations.outer(self)\<close> has shape \<open>(M, N)\<close>: one row for each
  operation, one column for each vector. The loop over the columns keeps the arrays
  \<^verbatim>\<open>v3\<close>, \<^verbatim>\<open>multiplicity\<close> and \<^verbatim>\<open>idx\<close> and the counter \<^verbatim>\<open>l_accum\<close>. Writing \<open>l\<close> vectors into
  the \<open>M\<close> places \<^verbatim>\<open>v3[i, :l]\<close> is refused when \<open>l\<close> is larger than \<open>M\<close>.
\<close>

definition outer :: "(vec3 \<Rightarrow> vec3) list \<Rightarrow> vec3 list \<Rightarrow> vec3 list list" where
  "outer operations vs = map (\<lambda>g. map g vs) operations"

definition column :: "'a list list \<Rightarrow> nat \<Rightarrow> 'a list" where
  "column rows i = map (\<lambda>row. row ! i) rows"

text \<open>
  Modelled from the spec: the inherited \<^verbatim>\<open>flatten\<close> is not part of these sources. The spec
  flattens the orbit as an \<open>N \<times> M\<close> batch: the \<open>M\<close> images of the first vector, then those of
  the second, and so on. On the \<open>(M, N)\<close> batch of \<^verbatim>\<open>outer\<close> that is the run through its \<open>N\<close>
  columns. (A batch with one axis is its own flattening.)
\<close>

definition flatten_orbit :: "nat \<Rightarrow> 'a list list \<Rightarrow> 'a list" where
  "flatten_orbit n rows = concat (map (column rows) [0 ..< n])"

definition is_non_zero :: "vec3 \<Rightarrow> bool" where
  "is_non_zero v = (case v of (x, y, z) \<Rightarrow> \<bar>x\<bar> + \<bar>y\<bar> + \<bar>z\<bar> \<noteq> 0)"

text \<open>What the multiplicity law asks of the inherited \<^verbatim>\<open>unique\<close>: it returns no zero
  vector.\<close>

definition unique_drops_zero :: "vector3d \<Rightarrow> bool" where
  "unique_drops_zero base = (\<forall>xs. \<forall>v \<in> set (fst (v3d_unique base xs)). is_non_zero v)"

definition assign_slice :: "'a list \<Rightarrow> nat \<Rightarrow> nat \<Rightarrow> 'a \<Rightarrow> 'a list" where
  "assign_slice xs lo hi v =
     map (\<lambda>(j, x). if lo \<le> j \<and> j < hi then v else x) (zip [0 ..< length xs] xs)"

record sym_state =
  st_v3 :: "vec3 list list"
  st_multiplicity :: "int list"
  st_idx :: "int list"
  st_l_accum :: nat

definition broadcast_message :: string where
  "broadcast_message = ''could not broadcast input array''"

definition symmetrise_step ::
  "vector3d \<Rightarrow> vec3 list list \<Rightarrow> nat \<Rightarrow> nat \<Rightarrow> sym_state \<Rightarrow> error + sym_state" where
  "symmetrise_step base v2 m i st =
     (let vi = fst (v3d_unique base (column v2 i));
          l = length vi
      in if l > m then Inl (ValueError broadcast_message)
         else Inr \<lparr>st_v3 = (st_v3 st)[i := vi @ drop l (st_v3 st ! i)],
                   st_multiplicity = (st_multiplicity st)[i := int l],
                   st_idx = assign_slice (st_idx st) (st_l_accum st) (st_l_accum st + l) (int i),
                   st_l_accum = st_l_accum st + l\<rparr>)"

fun symmetrise_loop ::
  "vector3d \<Rightarrow> vec3 list list \<Rightarrow> nat \<Rightarrow> nat list \<Rightarrow> sym_state \<Rightarrow> error + sym_state" where
  "symmetrise_loop base v2 m [] st = Inr st"
| "symmetrise_loop base v2 m (i # rest) st =
     (case symmetrise_step base v2 m i st of
        Inl e \<Rightarrow> Inl e
      | Inr st' \<Rightarrow> symmetrise_loop base v2 m rest st')"

definition multiplicity_message :: string where
  "multiplicity_message = ''unique must be True when return_multiplicity is True''"

definition index_message :: string where
  "index_message = ''unique must be True when return_index is True''"

definition symmetrise_return ::
  "error + miller \<Rightarrow> bool \<Rightarrow> bool \<Rightarrow> int list \<Rightarrow> int list \<Rightarrow>
   error + miller \<times> int list option \<times> int list option" where
  "symmetrise_return m return_multiplicity return_index multiplicity idx =
     (case m of
        Inl e \<Rightarrow> Inl e
      | Inr r \<Rightarrow>
          Inr (r, if return_multiplicity then Some multiplicity else None,
                  if return_index then Some idx else None))"

definition Miller_symmetrise ::
  "vector3d \<Rightarrow> miller \<Rightarrow> bool \<Rightarrow> bool \<Rightarrow> bool \<Rightarrow>
   error + miller \<times> int list option \<times> int list option" where
  "Miller_symmetrise base self unique return_multiplicity return_index =
     (if return_multiplicity \<and> \<not> unique then Inl (ValueError multiplicity_message)
      else if return_index \<and> \<not> unique then Inl (ValueError index_message)
      else case phase self of
        None \<Rightarrow> Inl AttributeError
      | Some p \<Rightarrow>
         (let operations = point_group p;
              v2 = outer operations (data self)
          in if unique
             then
               (let n_v = length (data self);
                    m = length operations;
                    st0 = \<lparr>st_v3 = replicate n_v (replicate m (0, 0, 0)),
                           st_multiplicity = replicate n_v 0,
                           st_idx = replicate (n_v * m) (- 1),
                           st_l_accum = 0\<rparr>
                in case symmetrise_loop base v2 m [0 ..< n_v] st0 of
                     Inl e \<Rightarrow> Inl e
                   | Inr st \<Rightarrow>
                      (let kept = filter is_non_zero (concat (st_v3 st));
                           idx = take (length kept) (st_idx st)
                       in symmetrise_return
                            (Miller_init (Some kept) None None None None (phase self)
                               (Some (coordinate_format self)))
                            return_multiplicity return_index (st_multiplicity st) idx))
             else
               symmetrise_return
                 (Miller_init (Some (flatten_orbit (length (data self)) v2)) None None None None
                    (phase self)
                    (Some (coordinate_format self)))
                 return_multiplicity return_index [] []))"

text \<open>
  \<^verbatim>\<open>Miller.unique\<close>. With \<^verbatim>\<open>use_symmetry\<close> the \<open>(M, N)\<close> batch of \<^verbatim>\<open>outer\<close> is flattened and
  reshaped to \<open>N\<close> rows of \<open>M\<close> vectors, one row for the orbit of each vector; each row is
  sorted (\<^verbatim>\<open>numpy.lexsort\<close>: the last coordinate is the first key), and
  \<^verbatim>\<open>numpy.unique(..., axis=0)\<close> gives, for the distinct rows in ascending order, the
  position of their first occurrence.
\<close>

definition reshape :: "nat \<Rightarrow> nat \<Rightarrow> 'a list \<Rightarrow> 'a list list" where
  "reshape n m xs = map (\<lambda>r. take m (drop (r * m) xs)) [0 ..< n]"

definition lexsort_rows :: "vec3 list \<Rightarrow> vec3 list" where
  "lexsort_rows a = sort_key (\<lambda>v. case v of (x, y, z) \<Rightarrow> (z, y, x)) a"

definition flat_row :: "vec3 list \<Rightarrow> real list" where
  "flat_row a = concat (map (\<lambda>v. case v of (x, y, z) \<Rightarrow> [x, y, z]) a)"

definition first_index :: "'a list \<Rightarrow> 'a \<Rightarrow> nat" where
  "first_index xs x = length (takeWhile (\<lambda>y. y \<noteq> x) xs)"

definition np_unique_index :: "real list list \<Rightarrow> nat list" where
  "np_unique_index rows = map (first_index rows) (sort (remdups rows))"

definition Miller_unique ::
  "vector3d \<Rightarrow> miller \<Rightarrow> bool \<Rightarrow> bool \<Rightarrow> error + miller \<times> nat list option" where
  "Miller_unique base self use_symmetry return_index =
     (case v3d_unique base (data self) of (v, idx) \<Rightarrow>
       (case (if use_symmetry
              then (case phase self of
                      None \<Rightarrow> Inl AttributeError
                    | Some p \<Rightarrow>
                       (let operations = point_group p;
                            n_v = length v;
                            v2 = reshape n_v (length operations)
                                   (flatten_orbit n_v (outer operations v));
                            data_sorted = map lexsort_rows v2;
                            idx' = np_unique_index (map flat_row data_sorted)
                        in Inr (map (\<lambda>j. v ! j) (rev idx'), idx')))
              else Inr (v, idx)) of
          Inl e \<Rightarrow> Inl e
        | Inr (v', idx') \<Rightarrow>
           (case Miller_init (Some v') None None None None (phase self)
                   (Some (coordinate_format self)) of
              Inl e \<Rightarrow> Inl e
            | Inr m \<Rightarrow> Inr (m, if return_index then Some idx' else None))))"

text \<open>
  \<^verbatim>\<open>_round_indices\<close>, for an array with one leading axis: \<open>n\<close> index sets of length 3 or 4
  (a single set is the case \<open>n = 1\<close>, and comes back as the only row). Without any
  multiplier (\<open>max_index < 1\<close>) \<^verbatim>\<open>argmin\<close> refuses the empty axis. For a set whose three
  indices are all zero numpy divides by zero without raising: the multiplier of the set
  is infinite (\<open>None\<close> here), its products are infinite or NaN, and their cast to a
  64-bit integer is the least one.
\<close>

datatype indices = Triplets "idx3 list" | Quartets "idx4 list"

datatype int_indices =
  IntTriplets "(int \<times> int \<times> int) list" | IntQuartets "(int \<times> int \<times> int \<times> int) list"

definition argmin_message :: string where
  "argmin_message = ''attempt to get argmin of an empty sequence''"

definition int_min :: int where
  "int_min = - (2 ^ 63)"

definition scaled_error :: "idx3 \<Rightarrow> real" where
  "scaled_error s =
     (case s of (x, y, z) \<Rightarrow>
        1 / 10 ^ 7 *
        np_round (10 ^ 7 * ((x - np_round x)\<^sup>2 + (y - np_round y)\<^sup>2 + (z - np_round z)\<^sup>2)
                  / (x\<^sup>2 + y\<^sup>2 + z\<^sup>2)))"

definition set_multiplier :: "int \<Rightarrow> idx3 \<Rightarrow> real option" where
  "set_multiplier max_index t =
     (case t of (x, y, z) \<Rightarrow>
        (let max_per_set = max \<bar>x\<bar> (max \<bar>y\<bar> \<bar>z\<bar>)
         in if max_per_set = 0 then None
            else
              (let multipliers = map real_of_int [1 .. max_index];
                   idx_scaled = map (\<lambda>m. (x / max_per_set * m, y / max_per_set * m,
                                            z / max_per_set * m)) multipliers;
                   err = map scaled_error idx_scaled;
                   idx_min_error = argmin err
               in Some ((real idx_min_error + 1) / max_per_set))))"

definition round_entry :: "real option \<Rightarrow> real \<Rightarrow> int" where
  "round_entry multiplier x =
     (case multiplier of None \<Rightarrow> int_min | Some m \<Rightarrow> rint (m * x))"

definition round_indices :: "indices \<Rightarrow> int \<Rightarrow> error + int_indices" where
  "round_indices idx max_index =
     (let idx_flat = (case idx of Triplets ts \<Rightarrow> ts | Quartets qs \<Rightarrow> hkil2hkl qs)
      in if max_index < 1 then Inl (ValueError argmin_message)
         else
           (let multiplier = map (set_multiplier max_index) idx_flat
            in case idx of
                 Triplets ts \<Rightarrow>
                   Inr (IntTriplets
                          (map (\<lambda>(m, (x, y, z)). (round_entry m x, round_entry m y, round_entry m z))
                             (zip multiplier ts)))
               | Quartets qs \<Rightarrow>
                   Inr (IntQuartets
                          (map (\<lambda>(m, (h, k, i, l)).
                                  (round_entry m h, round_entry m k, round_entry m i,
                                   round_entry m l))
                             (zip multiplier qs)))))"

section \<open>The local grid of \<^verbatim>\<open>orix/gridding/grid_generators.py\<close>\<close>

text \<open>
  Modelled from the spec: the composition of two rotations (\<^verbatim>\<open>center * q\<close>) is the
  quaternion product; the class \<^verbatim>\<open>Rotation\<close> is not part of these sources.
\<close>

definition qmul :: "quat \<Rightarrow> quat \<Rightarrow> quat" where
  "qmul p q =
     (case p of (a1, b1, c1, d1) \<Rightarrow>
        (case q of (a2, b2, c2, d2) \<Rightarrow>
           (a1 * a2 - b1 * b2 - c1 * c2 - d1 * d2,
            a1 * b2 + b1 * a2 + c1 * d2 - d1 * c2,
            a1 * c2 - b1 * d2 + c1 * a2 + d1 * b2,
            a1 * d2 + b1 * c2 - c1 * b2 + d1 * a2)))"

definition quat_a :: "quat \<Rightarrow> real" where
  "quat_a q = (case q of (a, b, c, d) \<Rightarrow> a)"

text \<open>
  \<^verbatim>\<open>get_grid_local\<close>. The sampler \<^verbatim>\<open>create_equispaced_grid\<close> is imported from a module that
  is not part of these sources and is a parameter; it is called with the resolution
  alone.
\<close>

definition get_grid_local :: "(real \<Rightarrow> quat list) \<Rightarrow> real \<Rightarrow> quat option \<Rightarrow> real \<Rightarrow> quat list" where
  "get_grid_local create_equispaced_grid resolution center grid_width =
     (let q = create_equispaced_grid resolution;
          grid_cosine = np_arccos (deg2rad (grid_width / 2));
          q = filter (\<lambda>r. gt_nan (quat_a r) grid_cosine) q
      in case center of None \<Rightarrow> q | Some c \<Rightarrow> map (qmul c) q)"

text \<open>The local grid as the specification words it: the scalar part exceeds the cosine of
  half the grid width.\<close>

definition get_grid_local_spec :: "(real \<Rightarrow> quat list) \<Rightarrow> real \<Rightarrow> quat option \<Rightarrow> real \<Rightarrow> quat list" where
  "get_grid_local_spec create_equispaced_grid resolution center grid_width =
     (let q = filter (\<lambda>r. quat_a r > cos (deg2rad (grid_width / 2)))
                (create_equispaced_grid resolution)
      in case center of None \<Rightarrow> q | Some c \<Rightarrow> map (qmul c) q)"

section \<open>Objects and references\<close>

text \<open>
  Instances live in a store, addressed by their position. A method called on the
  reference \<open>self\<close> reads that instance; the instance built by \<^verbatim>\<open>self.__class__(...)\<close> is
  put at a fresh address, which the method returns (with the arrays returned beside it).
\<close>

type_synonym store = "miller list"

definition new_object :: "store \<Rightarrow> error + miller \<times> 'r \<Rightarrow> error + store \<times> nat \<times> 'r" where
  "new_object s r = (case r of Inl e \<Rightarrow> Inl e | Inr (m, x) \<Rightarrow> Inr (s @ [m], length s, x))"

definition no_extra :: "error + miller \<Rightarrow> error + miller \<times> unit" where
  "no_extra r = (case r of Inl e \<Rightarrow> Inl e | Inr m \<Rightarrow> Inr (m, ()))"

definition call_getitem :: "store \<Rightarrow> nat \<Rightarrow> key \<Rightarrow> error + store \<times> nat \<times> unit" where
  "call_getitem s self k = new_object s (no_extra (Miller_getitem (s ! self) k))"

definition call_unit :: "vector3d \<Rightarrow> store \<Rightarrow> nat \<Rightarrow> error + store \<times> nat \<times> unit" where
  "call_unit base s self = new_object s (no_extra (Miller_unit base (s ! self)))"

definition call_symmetrise ::
  "vector3d \<Rightarrow> store \<Rightarrow> nat \<Rightarrow> bool \<Rightarrow> bool \<Rightarrow> bool \<Rightarrow>
   error + store \<times> nat \<times> int list option \<times> int list option" where
  "call_symmetrise base s self unique return_multiplicity return_index =
     new_object s (Miller_symmetrise base (s ! self) unique return_multiplicity return_index)"

definition call_unique ::
  "vector3d \<Rightarrow> store \<Rightarrow> nat \<Rightarrow> bool \<Rightarrow> bool \<Rightarrow> error + store \<times> nat \<times> nat list option" where
  "call_unique base s self use_symmetry return_index =
     new_object s (Miller_unique base (s ! self) use_symmetry return_index)"

section \<open>Example instances\<close>

text \<open>A cubic lattice with unit cell edge, a phase with the point group of the identity and
  the half turn about the third axis, and an instance of the inherited methods: \<open>unit\<close>
  divides by the Euclidean norm, \<open>unique\<close> drops zero vectors and repeats and sorts, \<open>cross\<close>
  pairs two batches of equal length.\<close>

definition cubic :: lattice where
  "cubic = \<lparr>lat_a = 1, lat_b = 1, lat_c = 1, lat_ca = 0, lat_cb = 0, lat_cg = 0,
             lat_sg = 1, lat_volume = 1\<rparr>"

text \<open>A lattice with unit edges whose first two edges enclose an angle with cosine 3/5
  and sine 4/5, and a phase on it.\<close>

definition oblique :: lattice where
  "oblique = \<lparr>lat_a = 1, lat_b = 1, lat_c = 1, lat_ca = 0, lat_cb = 0, lat_cg = 3 / 5,
               lat_sg = 4 / 5, lat_volume = 4 / 5\<rparr>"

definition oblique_phase :: phase where
  "oblique_phase = \<lparr>point_group = [id], structure_lattice = oblique\<rparr>"

definition half_turn :: "vec3 \<Rightarrow> vec3" where
  "half_turn v = (case v of (x, y, z) \<Rightarrow> (- x, - y, z))"

definition example_phase :: phase where
  "example_phase = \<lparr>point_group = [id, half_turn], structure_lattice = cubic\<rparr>"

definition unit1 :: "vec3 \<Rightarrow> vec3" where
  "unit1 v = (case v of (x, y, z) \<Rightarrow>
     (let n = sqrt (x\<^sup>2 + y\<^sup>2 + z\<^sup>2) in (x / n, y / n, z / n)))"

definition unique_non_zero :: "vec3 list \<Rightarrow> vec3 list \<times> nat list" where
  "unique_non_zero vs =
     (let u = sort (remdups (filter is_non_zero vs)) in (u, map (first_index vs) u))"

definition cross1 :: "vec3 \<Rightarrow> vec3 \<Rightarrow> vec3" where
  "cross1 v w =
     (case v of (a, b, c) \<Rightarrow>
        (case w of (x, y, z) \<Rightarrow> (b * z - c * y, c * x - a * z, a * y - b * x)))"

definition cross_equal_length :: "vec3 list \<Rightarrow> vec3 list \<Rightarrow> error + vec3 list" where
  "cross_equal_length vs ws =
     (if length vs = length ws then Inr (map (\<lambda>(v, w). cross1 v w) (zip vs ws))
      else Inl (ValueError broadcast_message))"

definition example_vector3d :: vector3d where
  "example_vector3d =
     \<lparr>v3d_unit = map unit1, v3d_unique = unique_non_zero, v3d_cross = cross_equal_length\<rparr>"

definition example_miller :: miller where
  "example_miller =
     \<lparr>data = [(1, 0, 0), (0, 0, 2)], phase = Some example_phase, coordinate_format = ''hkl''\<rparr>"


section \<open>Round trips of the index conversions\<close>

lemma hkil2hkl1_hkl2hkil1: "hkil2hkl1 (hkl2hkil1 x) = x"
  by (cases x) (simp add: hkil2hkl1_def hkl2hkil1_def)

lemma UVTW2uvw1_uvw2UVTW1: "UVTW2uvw1 id c (uvw2UVTW1 id c x) = x"
  by (cases x) (simp add: UVTW2uvw1_def uvw2UVTW1_def Let_def field_simps)

text \<open>
  Claim C3, as amended. Converting a batch of hkl triples to hkil and back gives the batch
  itself, whatever the number type (the code only copies the three components). Converting
  a batch of uvw triples to UVTW and back gives the batch itself in exact arithmetic, for
  either convention.
\<close>

theorem roundtrip_hkl_uvw_exact_arithmetic:
  "hkil2hkl (hkl2hkil hkl) = hkl \<and> UVTW2uvw id (uvw2UVTW id uvw c) c = uvw"
  by (simp add: hkil2hkl_def hkl2hkil_def UVTW2uvw_def uvw2UVTW_def
      hkil2hkl1_hkl2hkil1 UVTW2uvw1_uvw2UVTW1 comp_def)

subsection \<open>The same round trip in float64\<close>

lemma floor_log2:
  fixes x :: real
  assumes "2 powi k \<le> \<bar>x\<bar>" "\<bar>x\<bar> < 2 powi (k + 1)"
  shows "\<lfloor>log 2 \<bar>x\<bar>\<rfloor> = k"
proof -
  have "(0 :: real) < 2 powi k" by simp
  then have pos: "0 < \<bar>x\<bar>" using assms(1) by linarith
  have a: "(2 :: real) powr real_of_int k = 2 powi k"
    and b: "(2 :: real) powr real_of_int (k + 1) = 2 powi (k + 1)"
    using powr_real_of_int' [of 2 k] powr_real_of_int' [of 2 "k + 1"] by simp_all
  show ?thesis
    using floor_log_eq_powr_iff [of "\<bar>x\<bar>" 2 k] pos assms unfolding a b by simp
qed

lemma fl64_eval:
  assumes "2 powi k \<le> \<bar>x\<bar>" "\<bar>x\<bar> < 2 powi (k + 1)"
  shows "fl64 x = of_int (rint (x / 2 powi (k - 52))) * 2 powi (k - 52)"
proof -
  have "(0 :: real) < 2 powi k" by simp
  then have "0 < \<bar>x\<bar>" using assms(1) by linarith
  then have "x \<noteq> 0" by simp
  then show ?thesis using floor_log2 [OF assms] by (simp add: fl64_def Let_def)
qed

lemma two_powi_m52: "(2::real) powi (- 52) = 1 / 4503599627370496"
  by (simp add: power_int_minus field_simps)

lemma fl64_5_3: "fl64 (5 / 3) = 7505999378950827 / 4503599627370496"
  using fl64_eval [of 0 "5 / 3"] by (simp add: two_powi_m52 rint_def Let_def)

lemma fl64_4: "fl64 4 = 4"
  using fl64_eval [of 2 4] by (simp add: power_int_minus rint_def Let_def)


lemma fl64_5: "fl64 5 = 5"
  using fl64_eval [of 2 5] by (simp add: power_int_minus rint_def Let_def)

lemma fl64_m2: "fl64 (- 2) = - 2"
  using fl64_eval [of 1 "- 2"] by (simp add: power_int_minus rint_def Let_def)

lemma fl64_m4: "fl64 (- 4) = - 4"
  using fl64_eval [of 2 "- 4"] by (simp add: power_int_minus rint_def Let_def)

lemma fl64_m4_3: "fl64 (- (4 / 3)) = - (6004799503160661 / 4503599627370496)"
  using fl64_eval [of 0 "- (4 / 3)"] by (simp add: two_powi_m52 rint_def Let_def)

lemma fl64_2U: "fl64 (7505999378950827 / 2251799813685248) = 7505999378950827 / 2251799813685248"
  using fl64_eval [of 1 "7505999378950827 / 2251799813685248"]
  by (simp add: power_int_minus rint_def Let_def)

lemma fl64_2V: "fl64 (- (6004799503160661 / 2251799813685248)) = - (6004799503160661 / 2251799813685248)"
  using fl64_eval [of 1 "- (6004799503160661 / 2251799813685248)"]
  by (simp add: power_int_minus rint_def Let_def)

lemma fl64_u: "fl64 (9007199254740993 / 4503599627370496) = 2"
  using fl64_eval [of 1 "9007199254740993 / 4503599627370496"]
  by (simp add: power_int_minus rint_def Let_def)

lemma fl64_v: "fl64 (- (4503599627370495 / 4503599627370496)) = - (4503599627370495 / 4503599627370496)"
  using fl64_eval [of "- 1" "- (4503599627370495 / 4503599627370496)"]
  by (simp add: power_int_minus rint_def Let_def)

text \<open>
  Claim C3, as stated, fails for the float64 arithmetic of the code: the triple
  \<open>[2, -1, 0]\<close> comes back from the two Weber-symbol conversions with the second
  component \<open>-0.9999999999999998\<close>.
\<close>

theorem roundtrip_uvw_float64_counterexample:
  "UVTW2uvw fl64 (uvw2UVTW fl64 [(2, - 1, 0)] None) None =
     [(2, - 4503599627370495 / 4503599627370496, 0)] \<and>
   UVTW2uvw fl64 (uvw2UVTW fl64 [(2, - 1, 0)] None) None \<noteq> [(2, - 1, 0)]"
  by (simp add: UVTW2uvw_def uvw2UVTW_def UVTW2uvw1_def uvw2UVTW1_def is_mtex_def Let_def
      fl64_4 fl64_5 fl64_5_3 fl64_m2 fl64_m4 fl64_m4_3 fl64_2U fl64_2V fl64_u fl64_v)

section \<open>The sampler: unit norm and step counts\<close>

lemma shoemake_unit:
  assumes "0 \<le> u1" "u1 \<le> 1"
  shows "quat_norm (shoemake (u1, u2, u3)) = 1"
proof -
  have a: "(sqrt (1 - u1))\<^sup>2 = 1 - u1" and b: "(sqrt u1)\<^sup>2 = u1"
    using assms by simp_all
  have "(sqrt (1 - u1) * sin (2 * pi * u2))\<^sup>2 + (sqrt (1 - u1) * cos (2 * pi * u2))\<^sup>2
        + (sqrt u1 * sin (2 * pi * u3))\<^sup>2 + (sqrt u1 * cos (2 * pi * u3))\<^sup>2
      = (1 - u1) * ((sin (2 * pi * u2))\<^sup>2 + (cos (2 * pi * u2))\<^sup>2)
        + u1 * ((sin (2 * pi * u3))\<^sup>2 + (cos (2 * pi * u3))\<^sup>2)"
    unfolding power_mult_distrib a b by (simp only: distrib_left add.assoc)
  also have "\<dots> = 1" by simp
  finally show ?thesis
    by (simp add: quat_norm_def shoemake_def Let_def)
qed

lemma length_linspace: "length (linspace a b n) = nat n"
  by (auto simp: linspace_def)

lemma linspace_range:
  assumes "a \<le> b" "x \<in> set (linspace a b n)"
  shows "a \<le> x \<and> x \<le> b"
proof (cases "n \<le> 1")
  case True
  with assms show ?thesis by (auto simp: linspace_def split: if_splits)
next
  case False
  then obtain i where i: "i < nat n" and x: "x = a + real i * ((b - a) / real_of_int (n - 1))"
    using assms(2) by (auto simp: linspace_def)
  let ?t = "real i / real_of_int (n - 1)"
  have t0: "0 \<le> ?t" using False by simp
  have t1: "?t \<le> 1" using False i by (simp add: divide_le_eq)
  have xe: "x = a + ?t * (b - a)" using x by simp
  have "0 \<le> ?t * (b - a)" using t0 assms(1) by (intro mult_nonneg_nonneg) simp_all
  moreover have "?t * (b - a) \<le> 1 * (b - a)"
    using t1 assms(1) by (intro mult_right_mono) simp_all
  ultimately show ?thesis using xe by simp
qed

lemma u_1_max_range: "0 \<le> u_1_max_of m \<and> u_1_max_of m \<le> 1"
proof -
  have "(cos (deg2rad (m / 2)))\<^sup>2 \<le> 1" by (simp add: abs_square_le_1)
  then show ?thesis by (simp add: u_1_max_of_def e_1_min_of_def)
qed

lemma u_1_axis_range:
  assumes "x \<in> set (u_1_axis n ma)"
  shows "0 \<le> x \<and> x \<le> 1"
proof (cases ma)
  case None
  with assms linspace_range [of 0 1 x n] show ?thesis by (simp add: u_1_axis_def)
next
  case (Some m)
  with assms linspace_range [of 0 "u_1_max_of m" x "num_1_of n m"] u_1_max_range [of m]
  show ?thesis by (simp add: u_1_axis_def)
qed

lemma meshgrid_flat_first: "(x, y, z) \<in> set (meshgrid_flat u1 u2 u3) \<Longrightarrow> x \<in> set u1"
  by (auto simp: meshgrid_flat_def)

lemma num_steps_of_360: "num_steps_of 360 = 1"
  by (simp add: num_steps_of_def py_int_def)

lemma u_1_max_of_0: "u_1_max_of 0 = 0"
  by (simp add: u_1_max_of_def e_1_min_of_def deg2rad_def)

lemma u_2_min_of_0: "u_2_min_of 0 = 1 / 4"
proof -
  have "e_1_min_of 0 = 1" by (simp add: e_1_min_of_def deg2rad_def)
  then have "u_2_min_of 0 = pi / 2 / 2 / pi" by (simp add: u_2_min_of_def)
  then show ?thesis by simp
qed

lemma sampler_360: "three_uniform_samples_method 360 None = Inr [(0, 1, 0, 0)]"
  by (simp add: three_uniform_samples_method_def num_steps_of_360 u_1_axis_def u_2_axis_def
      linspace_def meshgrid_flat_def shoemake_def)

text \<open>
  Claim C4. The quadruple built from a parameter triple with \<open>u1\<close> in \<open>[0, 1]\<close> has norm
  1, and so has every quaternion of the array the sampler builds, with or without a
  maximum angle.
\<close>

theorem sampler_unit_norm:
  "(0 \<le> u1 \<and> u1 \<le> 1 \<longrightarrow> quat_norm (shoemake (u1, u2, u3)) = 1) \<and>
   (three_uniform_samples_method resolution max_angle = Inr qs \<longrightarrow>
      (\<forall>q \<in> set qs. quat_norm q = 1))"
proof (intro conjI impI ballI)
  assume "0 \<le> u1 \<and> u1 \<le> 1"
  then show "quat_norm (shoemake (u1, u2, u3)) = 1" by (simp add: shoemake_unit)
next
  fix q
  assume r: "three_uniform_samples_method resolution max_angle = Inr qs" and q: "q \<in> set qs"
  then obtain m where
    m: "m \<in> set (meshgrid_flat (u_1_axis (num_steps_of resolution) max_angle)
                  (u_2_axis (num_steps_of resolution) max_angle)
                  (linspace 0 1 (num_steps_of resolution)))"
    and qm: "q = shoemake m"
    by (auto simp: three_uniform_samples_method_def Let_def split: if_splits)
  obtain x y z where xyz: "m = (x, y, z)" by (cases m) auto
  from m xyz have "x \<in> set (u_1_axis (num_steps_of resolution) max_angle)"
    using meshgrid_flat_first by blast
  then have "0 \<le> x \<and> x \<le> 1" by (rule u_1_axis_range)
  then show "quat_norm q = 1" using qm xyz shoemake_unit by simp
qed

theorem sampler_unit_norm_witness:
  "(0 \<le> (1 / 4 :: real) \<and> (1 / 4 :: real) \<le> 1) \<and> quat_norm (shoemake (1 / 4, 1 / 2, 0)) = 1 \<and>
   three_uniform_samples_method 360 None = Inr [(0, 1, 0, 0)] \<and>
   (0, 1, 0, 0) \<in> set [(0, 1, 0, 0) :: quat] \<and> quat_norm (0, 1, 0, 0) = 1"
  using sampler_unit_norm [of "1 / 4" "1 / 2" 0 360 None "[(0, 1, 0, 0)]"] sampler_360
  by simp

text \<open>
  Claim C7. With a maximum angle, the step counts of the two restricted axes are at
  least 2 for every resolution (so for every positive one): a count that
  \<^verbatim>\<open>int(num_steps * fraction)\<close> would make 1 or less is 2. The two axes have that many
  samples.
\<close>

theorem restricted_axes_at_least_two:
  "2 \<le> num_1_of (num_steps_of resolution) max_angle \<and>
   2 \<le> num_2_of (num_steps_of resolution) max_angle \<and>
   (py_int (of_int (num_steps_of resolution) * u_1_max_of max_angle) \<le> 1 \<longrightarrow>
      num_1_of (num_steps_of resolution) max_angle = 2) \<and>
   (py_int (of_int (num_steps_of resolution) * (1 - u_2_min_of max_angle)) \<le> 1 \<longrightarrow>
      num_2_of (num_steps_of resolution) max_angle = 2) \<and>
   2 \<le> length (u_1_axis (num_steps_of resolution) (Some max_angle)) \<and>
   2 \<le> length (u_2_axis (num_steps_of resolution) (Some max_angle))"
proof -
  have n1: "2 \<le> num_1_of (num_steps_of resolution) max_angle"
    by (simp add: num_1_of_def)
  have n2: "2 \<le> num_2_of (num_steps_of resolution) max_angle"
    by (simp add: num_2_of_def)
  have e1: "py_int (of_int (num_steps_of resolution) * u_1_max_of max_angle) \<le> 1 \<longrightarrow>
      num_1_of (num_steps_of resolution) max_angle = 2"
    by (simp add: num_1_of_def)
  have e2: "py_int (of_int (num_steps_of resolution) * (1 - u_2_min_of max_angle)) \<le> 1 \<longrightarrow>
      num_2_of (num_steps_of resolution) max_angle = 2"
    by (simp add: num_2_of_def)
  have l1: "2 \<le> length (u_1_axis (num_steps_of resolution) (Some max_angle))"
    using n1 by (simp add: u_1_axis_def length_linspace)
  have l2: "2 \<le> length (u_2_axis (num_steps_of resolution) (Some max_angle))"
    using n2 by (simp add: u_2_axis_def length_linspace)
  from n1 n2 e1 e2 l1 l2 show ?thesis by blast
qed

text \<open>The two samples need not differ in value: with a maximum angle of zero the first
  restricted axis is the point 0 twice.\<close>

lemma u_1_axis_zero_angle: "u_1_axis (num_steps_of resolution) (Some 0) = [0, 0]"
  by (simp add: u_1_axis_def num_1_of_def u_1_max_of_0 py_int_def linspace_def upt_rec)

theorem restricted_axes_at_least_two_witness:
  "py_int (of_int (num_steps_of 360) * u_1_max_of 0) \<le> 1 \<and>
   py_int (of_int (num_steps_of 360) * (1 - u_2_min_of 0)) \<le> 1 \<and>
   num_1_of (num_steps_of 360) 0 = 2 \<and> num_2_of (num_steps_of 360) 0 = 2 \<and>
   length (u_1_axis (num_steps_of 360) (Some 0)) = 2 \<and>
   length (u_2_axis (num_steps_of 360) (Some 0)) = 2"
  using restricted_axes_at_least_two [of 360 0]
  by (simp add: num_steps_of_360 u_1_max_of_0 u_2_min_of_0 py_int_def num_1_of_def num_2_of_def
      u_1_axis_def u_2_axis_def length_linspace)

section \<open>The local grid\<close>

lemma cos_one_ge_half: "1 / 2 \<le> cos (1 :: real)"
proof -
  have s0: "0 < sin (1 / 2 :: real)" by (intro sin_gt_zero_02) simp_all
  have s1: "sin (1 / 2 :: real) \<le> 1 / 2" by (intro sin_x_le_x) simp
  have "(sin (1 / 2 :: real))\<^sup>2 \<le> (1 / 2)\<^sup>2"
    using s0 s1 by (intro power_mono) simp_all
  then have "(sin (1 / 2 :: real))\<^sup>2 \<le> 1 / 4" by (simp add: power2_eq_square)
  moreover have "cos (1 :: real) = 1 - 2 * (sin (1 / 2 :: real))\<^sup>2"
    using cos_double_sin [of "1 / 2 :: real"] by simp
  ultimately show ?thesis by simp
qed

lemma arccos_default_width: "1 < arccos (deg2rad (10 / 2))"
proof -
  have p2: "2 \<le> pi" and p4: "pi < 4" using pi_ge_two pi_less_4 by simp_all
  have x: "deg2rad (10 / 2) = pi / 36" by (simp add: deg2rad_def)
  have "pi / 36 < cos 1" using p4 cos_one_ge_half by simp
  moreover have "- 1 \<le> pi / 36" using p2 by simp
  ultimately have "arccos (cos 1) < arccos (pi / 36)"
    by (intro arccos_less_arccos) simp_all
  moreover have "arccos (cos 1) = 1" using p2 by (intro arccos_cos) simp_all
  ultimately have "1 < arccos (pi / 36)" by simp
  then show ?thesis by (simp only: x)
qed

lemma deg2rad_default_in_range: "- 1 \<le> deg2rad (10 / 2) \<and> deg2rad (10 / 2) \<le> 1"
  using pi_ge_two pi_less_4 by (simp add: deg2rad_def)

lemma cos_default_width: "cos (deg2rad (10 / 2)) < 1"
proof -
  have "cos (2 * (pi / 72)) < 1"
    using pi_gt_zero pi_less_4 by (intro cos_double_less_one) simp_all
  then show ?thesis by (simp add: deg2rad_def)
qed

lemma local_grid_empty:
  assumes "\<forall>r \<in> set (grid resolution). quat_a r \<le> 1"
  shows "get_grid_local grid resolution center 10 = []"
proof -
  have "filter (\<lambda>r. gt_nan (quat_a r) (np_arccos (deg2rad (10 / 2)))) (grid resolution) = []"
    using assms arccos_default_width deg2rad_default_in_range
    by (auto simp: filter_empty_conv gt_nan_def np_arccos_def)
  then show ?thesis by (simp add: get_grid_local_def Let_def split: option.splits)
qed

text \<open>
  Claim C1 (the code departs from it). At the default grid width of 10 degrees the code
  compares the scalar part with \<open>arccos (deg2rad 5)\<close>, which is larger than 1: the identity
  rotation, whose scalar part 1 exceeds \<open>cos (deg2rad 5)\<close>, is dropped, and the grid is
  empty, while the grid of the specification keeps it.
\<close>

theorem get_grid_local_default_width_empty:
  "get_grid_local (\<lambda>r. [(1, 0, 0, 0)]) 2 None 10 = [] \<and>
   get_grid_local_spec (\<lambda>r. [(1, 0, 0, 0)]) 2 None 10 = [(1, 0, 0, 0)]"
proof -
  have "get_grid_local (\<lambda>r. [(1, 0, 0, 0)]) 2 None 10 = []"
    by (rule local_grid_empty) (simp add: quat_a_def)
  moreover have "get_grid_local_spec (\<lambda>r. [(1, 0, 0, 0)]) 2 None 10 = [(1, 0, 0, 0)]"
    using cos_default_width by (simp add: get_grid_local_spec_def quat_a_def)
  ultimately show ?thesis by simp
qed

section \<open>The constructor and the closure constraint\<close>

lemma Miller_init_xyz:
  "Miller_init (Some d) uvw UVTW hkl hkil ph (Some f) =
     (if f \<in> set formats then Inr \<lparr>data = d, phase = ph, coordinate_format = f\<rparr>
      else Inl (ValueError formats_message))"
  by (simp add: Miller_init_def finish_init_def set_coordinate_format_def)

lemma message_distinct: "formats_message \<noteq> hkil_message" "formats_message \<noteq> UVTW_message"
  by (simp_all add: formats_message_def hkil_message_def UVTW_message_def)

lemma hkl2xyz_error: "hkl2xyz i l = Inl e \<Longrightarrow> e = ZeroDivisionError \<or> e = LinAlgError"
  by (auto simp: hkl2xyz_def reciprocal_structure_matrix_def direct_structure_matrix_def
      linalg_inv_def Let_def split: sum.splits if_splits prod.splits)

lemma uvw2xyz_error: "uvw2xyz i l = Inl e \<Longrightarrow> e = ZeroDivisionError"
  by (auto simp: uvw2xyz_def direct_structure_matrix_def Let_def
      split: sum.splits if_splits prod.splits)

lemma closure_iff: "(\<not> allclose_zero (map sum_first3 qs) (1 / 10 ^ 4)) = (\<exists>q \<in> set qs. 1 / 10 ^ 4 < \<bar>sum_first3 q\<bar>)"
  by (auto simp: allclose_zero_def list_all_iff not_le)

lemma finish_init_ValueError:
  "finish_init x c ph fmt = Inl (ValueError msg) \<Longrightarrow> (\<exists>e. x = Inl e \<and> e = ValueError msg) \<or> msg = formats_message"
  by (auto simp: finish_init_def set_coordinate_format_def split: sum.splits if_splits)

lemma init_hkil:
  "Miller_init None None None None (Some hkil) (Some p) fmt =
     (if allclose_zero (map sum_first3 hkil) (1 / 10 ^ 4)
      then finish_init (hkl2xyz (hkil2hkl hkil) (structure_lattice p)) ''hkil'' (Some p) fmt
      else Inl (ValueError hkil_message))"
  by (simp add: Miller_init_def check_hkil_def)

lemma init_UVTW:
  "Miller_init None None (Some UVTW) hkl hkil (Some p) fmt =
     (if allclose_zero (map sum_first3 UVTW) (1 / 10 ^ 4)
      then finish_init (uvw2xyz (UVTW2uvw id UVTW None) (structure_lattice p)) ''UVTW'' (Some p) fmt
      else Inl (ValueError UVTW_message))"
  by (simp add: Miller_init_def check_UVTW_def)

lemma finish_hkil_not_closure:
  "finish_init (hkl2xyz i l) c ph fmt \<noteq> Inl (ValueError hkil_message)"
  using finish_init_ValueError [of "hkl2xyz i l" c ph fmt hkil_message] hkl2xyz_error [of i l] message_distinct
  by auto

lemma finish_UVTW_not_closure:
  "finish_init (uvw2xyz i l) c ph fmt \<noteq> Inl (ValueError UVTW_message)"
  using finish_init_ValueError [of "uvw2xyz i l" c ph fmt UVTW_message] uvw2xyz_error [of i l] message_distinct
  by auto

lemma linalg_inv_left:
  assumes "linalg_inv m = Inr n"
  shows "mat_vec (transpose3 m) (mat_vec (transpose3 n) v) = v"
proof -
  obtain a b c d e f g h i where m: "m = ((a, b, c), (d, e, f), (g, h, i))"
    by (metis prod_cases3)
  obtain x y z where v: "v = (x, y, z)" by (metis prod_cases3)
  define Dt where "Dt = a * (e * i - f * h) - b * (d * i - f * g) + c * (d * h - e * g)"
  have D: "det3 m = Dt" by (simp add: det3_def m Dt_def)
  from assms have dt: "Dt \<noteq> 0" and
    n: "n = (((e * i - f * h) / Dt, (c * h - b * i) / Dt, (b * f - c * e) / Dt),
             ((f * g - d * i) / Dt, (a * i - c * g) / Dt, (c * d - a * f) / Dt),
             ((d * h - e * g) / Dt, (b * g - a * h) / Dt, (a * e - b * d) / Dt))"
    unfolding linalg_inv_def D [symmetric] m by (auto simp: Let_def split: if_splits)
  let ?w1 = "(e * i - f * h) * x + (f * g - d * i) * y + (d * h - e * g) * z"
  let ?w2 = "(c * h - b * i) * x + (a * i - c * g) * y + (b * g - a * h) * z"
  let ?w3 = "(b * f - c * e) * x + (c * d - a * f) * y + (a * e - b * d) * z"
  have w: "mat_vec (transpose3 n) v = (?w1 / Dt, ?w2 / Dt, ?w3 / Dt)"
    unfolding n v by (simp add: mat_vec_def transpose3_def add_divide_distrib)
  have p1: "a * ?w1 + d * ?w2 + g * ?w3 = x * Dt"
    unfolding Dt_def by (simp add: algebra_simps)
  have p2: "b * ?w1 + e * ?w2 + h * ?w3 = y * Dt"
    unfolding Dt_def by (simp add: algebra_simps)
  have p3: "c * ?w1 + f * ?w2 + i * ?w3 = z * Dt"
    unfolding Dt_def by (simp add: algebra_simps)
  have q: "k1 * (r1 / Dt) + k2 * (r2 / Dt) + k3 * (r3 / Dt) = (k1 * r1 + k2 * r2 + k3 * r3) / Dt"
    for k1 k2 k3 r1 r2 r3 :: real
    by (simp add: add_divide_distrib)
  have "mat_vec (transpose3 m) (?w1 / Dt, ?w2 / Dt, ?w3 / Dt) = (x, y, z)"
    unfolding m mat_vec_def transpose3_def prod.case q p1 p2 p3 using dt by simp
  then show ?thesis using w v by simp
qed


lemma direct_structure_matrix_Inr:
  "direct_structure_matrix lat = Inr dsm \<Longrightarrow>
     dsm = ((lat_a lat, lat_b lat * lat_cg lat, lat_c lat * lat_cb lat),
            (0, lat_b lat * lat_sg lat,
             - lat_c lat * (lat_cb lat * lat_cg lat - lat_ca lat) / lat_sg lat),
            (0, 0, lat_volume lat / (lat_a lat * lat_b lat * lat_sg lat)))"
  by (auto simp: direct_structure_matrix_def Let_def split: if_splits)

lemma reciprocal_inverts_direct:
  assumes "direct_structure_matrix lat = Inr dsm" "reciprocal_structure_matrix lat = Inr rsm"
  shows "vec_mat (mat_vec rsm v) dsm = v"
proof -
  from assms obtain n where n: "linalg_inv dsm = Inr n" and r: "rsm = transpose3 n"
    by (auto simp: reciprocal_structure_matrix_def split: sum.splits)
  show ?thesis unfolding vec_mat_def r by (rule linalg_inv_left [OF n])
qed

text \<open>
  Claim C5. Built from hkil indices (or from UVTW indices) and a phase, the constructor
  raises the error of the closure check exactly when some quadruple has a sum of its
  first three components further than 0.0001 from zero; the check comes before any
  conversion. When every sum is within the tolerance, the instance stores, for each
  quadruple \<open>(h, k, i, l)\<close>, the product of the reciprocal structure matrix with
  \<open>(h, k, l)\<close> (for each \<open>(U, V, T, W)\<close>, the product of the direct structure matrix with
  \<open>(2U + V, U + 2V, W)\<close>). The direct structure matrix is the upper triangular matrix of
  the lattice parameters, and the reciprocal one takes a vector to the Cartesian vector
  whose product with the direct matrix gives the vector back.
\<close>

theorem closure_check_on_construction:
  "(Miller_init None None None None (Some hkil) (Some p) fmt = Inl (ValueError hkil_message))
     = (\<exists>q \<in> set hkil. 1 / 10 ^ 4 < \<bar>sum_first3 q\<bar>) \<and>
   (Miller_init None None (Some UVTW) None None (Some p) fmt = Inl (ValueError UVTW_message))
     = (\<exists>q \<in> set UVTW. 1 / 10 ^ 4 < \<bar>sum_first3 q\<bar>) \<and>
   (allclose_zero (map sum_first3 hkil) (1 / 10 ^ 4) \<and>
    reciprocal_structure_matrix (structure_lattice p) = Inr rsm \<and>
    (case fmt of None \<Rightarrow> True | Some f \<Rightarrow> f \<in> set formats) \<longrightarrow>
      Miller_init None None None None (Some hkil) (Some p) fmt =
        Inr \<lparr>data = map (\<lambda>q. case q of (h, k, i, l) \<Rightarrow> mat_vec rsm (h, k, l)) hkil,
             phase = Some p,
             coordinate_format = (case fmt of None \<Rightarrow> ''hkil'' | Some f \<Rightarrow> f)\<rparr>) \<and>
   (allclose_zero (map sum_first3 UVTW) (1 / 10 ^ 4) \<and>
    direct_structure_matrix (structure_lattice p) = Inr dsm \<and>
    (case fmt of None \<Rightarrow> True | Some f \<Rightarrow> f \<in> set formats) \<longrightarrow>
      Miller_init None None (Some UVTW) None None (Some p) fmt =
        Inr \<lparr>data = map (\<lambda>q. case q of (U, V, T, W) \<Rightarrow> mat_vec dsm (2 * U + V, U + 2 * V, W)) UVTW,
             phase = Some p,
             coordinate_format = (case fmt of None \<Rightarrow> ''UVTW'' | Some f \<Rightarrow> f)\<rparr>) \<and>
   (direct_structure_matrix (structure_lattice p) = Inr dsm \<longrightarrow>
      dsm = ((lat_a (structure_lattice p), lat_b (structure_lattice p) * lat_cg (structure_lattice p),
              lat_c (structure_lattice p) * lat_cb (structure_lattice p)),
             (0, lat_b (structure_lattice p) * lat_sg (structure_lattice p),
              - lat_c (structure_lattice p) *
                (lat_cb (structure_lattice p) * lat_cg (structure_lattice p) -
                 lat_ca (structure_lattice p)) / lat_sg (structure_lattice p)),
             (0, 0, lat_volume (structure_lattice p) /
                    (lat_a (structure_lattice p) * lat_b (structure_lattice p) *
                     lat_sg (structure_lattice p)))) \<and>
      (reciprocal_structure_matrix (structure_lattice p) = Inr rsm \<longrightarrow>
         vec_mat (mat_vec rsm v) dsm = v))"
proof (intro conjI impI)
  show "(Miller_init None None None None (Some hkil) (Some p) fmt = Inl (ValueError hkil_message))
     = (\<exists>q \<in> set hkil. 1 / 10 ^ 4 < \<bar>sum_first3 q\<bar>)"
    unfolding init_hkil closure_iff [symmetric] using finish_hkil_not_closure by simp
  show "(Miller_init None None (Some UVTW) None None (Some p) fmt = Inl (ValueError UVTW_message))
     = (\<exists>q \<in> set UVTW. 1 / 10 ^ 4 < \<bar>sum_first3 q\<bar>)"
    unfolding init_UVTW closure_iff [symmetric] using finish_UVTW_not_closure by simp
next
  assume h: "allclose_zero (map sum_first3 hkil) (1 / 10 ^ 4) \<and>
    reciprocal_structure_matrix (structure_lattice p) = Inr rsm \<and>
    (case fmt of None \<Rightarrow> True | Some f \<Rightarrow> f \<in> set formats)"
  have "map (mat_vec rsm) (hkil2hkl hkil) =
        map (\<lambda>q. case q of (h, k, i, l) \<Rightarrow> mat_vec rsm (h, k, l)) hkil"
    by (simp add: hkil2hkl_def hkil2hkl1_def comp_def case_prod_unfold)
  with h show "Miller_init None None None None (Some hkil) (Some p) fmt =
        Inr \<lparr>data = map (\<lambda>q. case q of (h, k, i, l) \<Rightarrow> mat_vec rsm (h, k, l)) hkil,
             phase = Some p,
             coordinate_format = (case fmt of None \<Rightarrow> ''hkil'' | Some f \<Rightarrow> f)\<rparr>"
    by (simp add: init_hkil finish_init_def hkl2xyz_def set_coordinate_format_def formats_def
        split: option.splits)
next
  assume h: "allclose_zero (map sum_first3 UVTW) (1 / 10 ^ 4) \<and>
    direct_structure_matrix (structure_lattice p) = Inr dsm \<and>
    (case fmt of None \<Rightarrow> True | Some f \<Rightarrow> f \<in> set formats)"
  have "map (mat_vec dsm) (UVTW2uvw id UVTW None) =
        map (\<lambda>q. case q of (U, V, T, W) \<Rightarrow> mat_vec dsm (2 * U + V, U + 2 * V, W)) UVTW"
    by (simp add: UVTW2uvw_def UVTW2uvw1_def is_mtex_def Let_def comp_def case_prod_unfold)
  with h show "Miller_init None None (Some UVTW) None None (Some p) fmt =
        Inr \<lparr>data = map (\<lambda>q. case q of (U, V, T, W) \<Rightarrow> mat_vec dsm (2 * U + V, U + 2 * V, W)) UVTW,
             phase = Some p,
             coordinate_format = (case fmt of None \<Rightarrow> ''UVTW'' | Some f \<Rightarrow> f)\<rparr>"
    by (simp add: init_UVTW finish_init_def uvw2xyz_def set_coordinate_format_def formats_def
        split: option.splits)
next
  assume d: "direct_structure_matrix (structure_lattice p) = Inr dsm"
  then show "dsm = ((lat_a (structure_lattice p), lat_b (structure_lattice p) * lat_cg (structure_lattice p),
              lat_c (structure_lattice p) * lat_cb (structure_lattice p)),
             (0, lat_b (structure_lattice p) * lat_sg (structure_lattice p),
              - lat_c (structure_lattice p) *
                (lat_cb (structure_lattice p) * lat_cg (structure_lattice p) -
                 lat_ca (structure_lattice p)) / lat_sg (structure_lattice p)),
             (0, 0, lat_volume (structure_lattice p) /
                    (lat_a (structure_lattice p) * lat_b (structure_lattice p) *
                     lat_sg (structure_lattice p))))"
    by (rule direct_structure_matrix_Inr)
  assume "reciprocal_structure_matrix (structure_lattice p) = Inr rsm"
  with d show "vec_mat (mat_vec rsm v) dsm = v" by (rule reciprocal_inverts_direct)
qed

lemma direct_oblique: "direct_structure_matrix oblique = Inr ((1, 3 / 5, 0), (0, 4 / 5, 0), (0, 0, 1))"
  by (simp add: direct_structure_matrix_def oblique_def)

lemma reciprocal_oblique:
  "reciprocal_structure_matrix oblique = Inr ((1, 0, 0), (- 3 / 4, 5 / 4, 0), (0, 0, 1))"
  by (simp add: reciprocal_structure_matrix_def direct_oblique linalg_inv_def det3_def
      transpose3_def)

theorem closure_check_on_construction_witness:
  "allclose_zero (map sum_first3 [(1, 0, - 1, 0), (0, 1, - 1, 2)]) (1 / 10 ^ 4) \<and>
   allclose_zero (map sum_first3 [(2 / 3, - 1 / 3, - 1 / 3, 0), (1 / 3, 1 / 3, - 2 / 3, 1)])
     (1 / 10 ^ 4) \<and>
   direct_structure_matrix (structure_lattice oblique_phase) =
     Inr ((1, 3 / 5, 0), (0, 4 / 5, 0), (0, 0, 1)) \<and>
   reciprocal_structure_matrix (structure_lattice oblique_phase) =
     Inr ((1, 0, 0), (- 3 / 4, 5 / 4, 0), (0, 0, 1)) \<and>
   Miller_init None None None None (Some [(1, 0, - 1, 0), (0, 1, - 1, 2)]) (Some oblique_phase)
     None =
     Inr \<lparr>data = [(1, - 3 / 4, 0), (0, 5 / 4, 2)], phase = Some oblique_phase,
          coordinate_format = ''hkil''\<rparr> \<and>
   Miller_init None None (Some [(2 / 3, - 1 / 3, - 1 / 3, 0), (1 / 3, 1 / 3, - 2 / 3, 1)]) None
     None (Some oblique_phase) None =
     Inr \<lparr>data = [(1, 0, 0), (8 / 5, 4 / 5, 1)], phase = Some oblique_phase,
          coordinate_format = ''UVTW''\<rparr> \<and>
   vec_mat (1, - 3 / 4, 0) ((1, 3 / 5, 0), (0, 4 / 5, 0), (0, 0, 1)) = (1, 0, 0) \<and>
   1 / 10 ^ 4 < \<bar>sum_first3 (1, 0, 0, 0)\<bar> \<and>
   Miller_init None None None None (Some [(1, 0, 0, 0)]) (Some oblique_phase) None =
     Inl (ValueError hkil_message)"
  using closure_check_on_construction [of "[(1, 0, - 1, 0), (0, 1, - 1, 2)]" oblique_phase None
      "[(2 / 3, - 1 / 3, - 1 / 3, 0), (1 / 3, 1 / 3, - 2 / 3, 1)]"
      "((1, 0, 0), (- 3 / 4, 5 / 4, 0), (0, 0, 1))" "((1, 3 / 5, 0), (0, 4 / 5, 0), (0, 0, 1))"
      "(1, 0, 0)"]
    closure_check_on_construction [of "[(1, 0, 0, 0)]" oblique_phase None "[]"]
    direct_oblique reciprocal_oblique
  by (simp add: allclose_zero_def sum_first3_def oblique_phase_def mat_vec_def)


section \<open>Symmetrically equivalent vectors: the flags\<close>

lemma length_column: "length (column rows i) = length rows"
  by (simp add: column_def)

lemma length_outer: "length (outer ops vs) = length ops"
  by (simp add: outer_def)

lemma symmetrise_loop_succeeds:
  assumes "\<And>xs. length (fst (v3d_unique base xs)) \<le> length xs" "length v2 = m"
  shows "\<exists>st'. symmetrise_loop base v2 m ixs st = Inr st'"
proof (induction ixs arbitrary: st)
  case Nil
  show ?case by simp
next
  case (Cons i rest)
  have "length (fst (v3d_unique base (column v2 i))) \<le> m"
    using assms(1) [of "column v2 i"] assms(2) by (simp add: length_column)
  then obtain st1 where "symmetrise_step base v2 m i st = Inr st1"
    by (simp add: symmetrise_step_def Let_def)
  then show ?case using Cons.IH [of st1] by simp
qed

lemma unique_non_zero_length: "length (fst (unique_non_zero xs)) \<le> length xs"
proof -
  have "length (remdups (filter is_non_zero xs)) \<le> length (filter is_non_zero xs)"
    by (rule length_remdups_leq)
  also have "\<dots> \<le> length xs" by (rule length_filter_le)
  finally show ?thesis by (simp add: unique_non_zero_def Let_def)
qed

lemma unique_non_zero_pair:
  "unique_non_zero [(1, 0, 0), (- 1, 0, 0)] = ([(- 1, 0, 0), (1, 0, 0)], [1, 0])"
  by (simp add: unique_non_zero_def is_non_zero_def first_index_def)

lemma unique_non_zero_repeat: "unique_non_zero [(0, 0, 2), (0, 0, 2)] = ([(0, 0, 2)], [0])"
  by (simp add: unique_non_zero_def is_non_zero_def first_index_def)

lemma upt_0_2: "[0 ..< 2] = [0, 1]"
  by (simp add: upt_rec)

lemma upt_0_4: "[0 ..< 4] = [0, 1, 2, 3]"
  by (simp add: upt_rec)

lemma symmetrise_example:
  "Miller_symmetrise example_vector3d example_miller True True True =
     Inr (\<lparr>data = [(- 1, 0, 0), (1, 0, 0), (0, 0, 2)], phase = Some example_phase,
            coordinate_format = ''hkl''\<rparr>,
          Some [2, 1], Some [0, 0, 1])"
  by (simp add: Miller_symmetrise_def example_miller_def example_phase_def example_vector3d_def
      outer_def half_turn_def symmetrise_step_def column_def unique_non_zero_pair
      unique_non_zero_repeat upt_0_2 upt_0_4 assign_slice_def is_non_zero_def
      symmetrise_return_def Miller_init_xyz formats_def Let_def)

text \<open>
  Claim C6. Without \<open>unique\<close>, asking for the multiplicity or for the index makes
  \<^verbatim>\<open>symmetrise\<close> raise its error at once, whatever the instance, its phase and the group.
  With \<open>unique\<close>, on an instance with a phase and one of the five formats, the same
  requests return (the inherited \<^verbatim>\<open>unique\<close> is taken to return no more vectors than it is
  given, so that they fit into the row of \<^verbatim>\<open>v3\<close>).
\<close>

theorem symmetrise_flags:
  "(return_multiplicity \<or> return_index \<longrightarrow>
      Miller_symmetrise base self False return_multiplicity return_index =
        Inl (ValueError (if return_multiplicity then multiplicity_message else index_message))) \<and>
   (phase self = Some p \<and> coordinate_format self \<in> set formats \<and>
    (\<forall>xs. length (fst (v3d_unique base xs)) \<le> length xs) \<longrightarrow>
      (\<exists>m multiplicity idx.
         Miller_symmetrise base self True return_multiplicity return_index =
           Inr (m, if return_multiplicity then Some multiplicity else None,
                   if return_index then Some idx else None)))"
proof (intro conjI impI)
  assume "return_multiplicity \<or> return_index"
  then show "Miller_symmetrise base self False return_multiplicity return_index =
        Inl (ValueError (if return_multiplicity then multiplicity_message else index_message))"
    by (auto simp: Miller_symmetrise_def)
next
  assume h: "phase self = Some p \<and> coordinate_format self \<in> set formats \<and>
    (\<forall>xs. length (fst (v3d_unique base xs)) \<le> length xs)"
  let ?v2 = "outer (point_group p) (data self)"
  let ?st0 = "\<lparr>st_v3 = replicate (length (data self)) (replicate (length (point_group p)) (0, 0, 0)),
                           st_multiplicity = replicate (length (data self)) 0,
                           st_idx = replicate (length (data self) * length (point_group p)) (- 1),
                           st_l_accum = 0\<rparr>"
  have "\<exists>st'. symmetrise_loop base ?v2 (length (point_group p)) [0 ..< length (data self)] ?st0 = Inr st'"
    by (rule symmetrise_loop_succeeds) (use h in \<open>simp_all add: length_outer\<close>)
  then obtain st where st: "symmetrise_loop base ?v2 (length (point_group p)) [0 ..< length (data self)] ?st0 = Inr st"
    by blast
  show "\<exists>m multiplicity idx.
         Miller_symmetrise base self True return_multiplicity return_index =
           Inr (m, if return_multiplicity then Some multiplicity else None,
                   if return_index then Some idx else None)"
    using h st
    by (simp add: Miller_symmetrise_def Let_def Miller_init_xyz symmetrise_return_def)
qed

theorem symmetrise_flags_witness:
  "(True \<or> False) \<and>
   Miller_symmetrise example_vector3d example_miller False True False =
     Inl (ValueError multiplicity_message) \<and>
   phase example_miller = Some example_phase \<and>
   coordinate_format example_miller \<in> set formats \<and>
   (\<forall>xs. length (fst (v3d_unique example_vector3d xs)) \<le> length xs) \<and>
   Miller_symmetrise example_vector3d example_miller True True True =
     Inr (\<lparr>data = [(- 1, 0, 0), (1, 0, 0), (0, 0, 2)], phase = Some example_phase,
            coordinate_format = ''hkl''\<rparr>,
          Some [2, 1], Some [0, 0, 1])"
  using symmetrise_flags [of True False example_vector3d example_miller example_phase]
    symmetrise_example unique_non_zero_length
  by (simp add: example_miller_def example_vector3d_def formats_def)

section \<open>The cross product\<close>

lemma new_fmt_simps:
  "new_fmt ''hkl'' = Some ''uvw''" "new_fmt ''uvw'' = Some ''hkl''"
  "new_fmt ''hkil'' = Some ''UVTW''" "new_fmt ''UVTW'' = Some ''hkil''"
  "new_fmt ''xyz'' = None"
  by (simp_all add: new_fmt_def)

text \<open>
  Claim C9. When the inherited cross product returns, \<^verbatim>\<open>cross\<close> on an instance in one of
  the four lattice formats returns an instance with the dual format and the same phase;
  on an instance in the format xyz it fails: the lookup of the new format raises
  \<^verbatim>\<open>KeyError\<close>.
\<close>

theorem cross_dual_format:
  "(coordinate_format self \<in> {''hkl'', ''uvw'', ''hkil'', ''UVTW''} \<and>
    v3d_cross base (data self) other = Inr d \<longrightarrow>
      Miller_cross base self other =
        Inr \<lparr>data = d, phase = phase self,
             coordinate_format =
               (if coordinate_format self = ''hkl'' then ''uvw''
                else if coordinate_format self = ''uvw'' then ''hkl''
                else if coordinate_format self = ''hkil'' then ''UVTW'' else ''hkil'')\<rparr>) \<and>
   (coordinate_format self = ''xyz'' \<longrightarrow>
      (\<exists>e. Miller_cross base self other = Inl e) \<and>
      (v3d_cross base (data self) other = Inr d \<longrightarrow>
         Miller_cross base self other = Inl (KeyError ''xyz'')))"
  by (auto simp: Miller_cross_def new_fmt_simps Miller_init_xyz formats_def split: sum.splits)

theorem cross_dual_format_witness:
  "coordinate_format example_miller \<in> {''hkl'', ''uvw'', ''hkil'', ''UVTW''} \<and>
   v3d_cross example_vector3d (data example_miller) [(0, 1, 0), (0, 1, 0)] =
     Inr [(0, 0, 1), (- 2, 0, 0)] \<and>
   Miller_cross example_vector3d example_miller [(0, 1, 0), (0, 1, 0)] =
     Inr \<lparr>data = [(0, 0, 1), (- 2, 0, 0)], phase = Some example_phase,
          coordinate_format = ''uvw''\<rparr> \<and>
   coordinate_format (example_miller\<lparr>coordinate_format := ''xyz''\<rparr>) = ''xyz'' \<and>
   Miller_cross example_vector3d (example_miller\<lparr>coordinate_format := ''xyz''\<rparr>)
     [(0, 1, 0), (0, 1, 0)] = Inl (KeyError ''xyz'')"
  using cross_dual_format [of example_miller example_vector3d "[(0, 1, 0), (0, 1, 0)]"
      "[(0, 0, 1), (- 2, 0, 0)]"]
    cross_dual_format [of "example_miller\<lparr>coordinate_format := ''xyz''\<rparr>" example_vector3d
      "[(0, 1, 0), (0, 1, 0)]" "[(0, 0, 1), (- 2, 0, 0)]"]
  by (simp add: example_miller_def example_vector3d_def cross_equal_length_def cross1_def)

section \<open>Methods that build a new instance\<close>

lemma new_object_Inr:
  "new_object s r = Inr (s', a, x) \<Longrightarrow> \<exists>m. r = Inr (m, x) \<and> s' = s @ [m] \<and> a = length s"
  by (auto simp: new_object_def split: sum.splits)

lemma Miller_init_xyz_Inr:
  "Miller_init (Some d) None None None None ph (Some f) = Inr m \<Longrightarrow>
     phase m = ph \<and> coordinate_format m = f \<and> data m = d"
  by (auto simp: Miller_init_xyz split: if_splits)

lemma getitem_keeps: "Miller_getitem self k = Inr m \<Longrightarrow> phase m = phase self \<and> coordinate_format m = coordinate_format self"
  by (auto simp: Miller_getitem_def split: sum.splits dest: Miller_init_xyz_Inr)

lemma unit_keeps: "Miller_unit base self = Inr m \<Longrightarrow> phase m = phase self \<and> coordinate_format m = coordinate_format self"
  by (auto simp: Miller_unit_def dest: Miller_init_xyz_Inr)

lemma symmetrise_keeps: "Miller_symmetrise base self u rm ri = Inr (m, x) \<Longrightarrow> phase m = phase self \<and> coordinate_format m = coordinate_format self"
  by (auto simp: Miller_symmetrise_def Let_def symmetrise_return_def split: if_splits option.splits sum.splits dest: Miller_init_xyz_Inr)

lemma unique_keeps: "Miller_unique base self us ri = Inr (m, x) \<Longrightarrow> phase m = phase self \<and> coordinate_format m = coordinate_format self"
  by (auto simp: Miller_unique_def Let_def split: if_splits option.splits sum.splits prod.splits dest: Miller_init_xyz_Inr)



lemma new_object_keeps:
  assumes "new_object s r = Inr (s', a, x)" "self < length s"
  shows "\<exists>m. r = Inr (m, x) \<and> take (length s) s' = s \<and> s' ! self = s ! self \<and> s' ! a = m \<and> a = length s"
  using assms by (auto simp: new_object_def nth_append split: sum.splits)

text \<open>
  Claim C10. Indexing, \<^verbatim>\<open>unit\<close>, \<^verbatim>\<open>symmetrise\<close> and \<^verbatim>\<open>unique\<close>, called on a reference into the
  store, leave every instance of the store as it was (so the Cartesian data of the
  instance they are called on), and the instance they return has the phase and the
  coordinate format of the instance they are called on.
\<close>

theorem methods_keep_phase_and_format:
  "self < length s \<longrightarrow>
   (call_getitem s self k = Inr (s1, r1, x1) \<longrightarrow>
      take (length s) s1 = s \<and> data (s1 ! self) = data (s ! self) \<and>
      phase (s1 ! r1) = phase (s ! self) \<and>
      coordinate_format (s1 ! r1) = coordinate_format (s ! self)) \<and>
   (call_unit base s self = Inr (s2, r2, x2) \<longrightarrow>
      take (length s) s2 = s \<and> data (s2 ! self) = data (s ! self) \<and>
      phase (s2 ! r2) = phase (s ! self) \<and>
      coordinate_format (s2 ! r2) = coordinate_format (s ! self)) \<and>
   (call_symmetrise base s self unique return_multiplicity return_index = Inr (s3, r3, x3) \<longrightarrow>
      take (length s) s3 = s \<and> data (s3 ! self) = data (s ! self) \<and>
      phase (s3 ! r3) = phase (s ! self) \<and>
      coordinate_format (s3 ! r3) = coordinate_format (s ! self)) \<and>
   (call_unique base s self use_symmetry return_index' = Inr (s4, r4, x4) \<longrightarrow>
      take (length s) s4 = s \<and> data (s4 ! self) = data (s ! self) \<and>
      phase (s4 ! r4) = phase (s ! self) \<and>
      coordinate_format (s4 ! r4) = coordinate_format (s ! self))"
proof (intro impI conjI)
  assume l: "self < length s"
  {
    assume c: "call_getitem s self k = Inr (s1, r1, x1)"
    from new_object_keeps [OF c [unfolded call_getitem_def] l]
    obtain m where m: "no_extra (Miller_getitem (s ! self) k) = Inr (m, x1)"
      "take (length s) s1 = s" "s1 ! self = s ! self" "s1 ! r1 = m" by blast
    from m(1) have "Miller_getitem (s ! self) k = Inr m"
      by (auto simp: no_extra_def split: sum.splits)
    then have "phase m = phase (s ! self) \<and> coordinate_format m = coordinate_format (s ! self)"
      by (rule getitem_keeps)
    with m show "take (length s) s1 = s" "data (s1 ! self) = data (s ! self)"
      "phase (s1 ! r1) = phase (s ! self)"
      "coordinate_format (s1 ! r1) = coordinate_format (s ! self)" by simp_all
  }
  {
    assume c: "call_unit base s self = Inr (s2, r2, x2)"
    from new_object_keeps [OF c [unfolded call_unit_def] l]
    obtain m where m: "no_extra (Miller_unit base (s ! self)) = Inr (m, x2)"
      "take (length s) s2 = s" "s2 ! self = s ! self" "s2 ! r2 = m" by blast
    from m(1) have "Miller_unit base (s ! self) = Inr m"
      by (auto simp: no_extra_def split: sum.splits)
    then have "phase m = phase (s ! self) \<and> coordinate_format m = coordinate_format (s ! self)"
      by (rule unit_keeps)
    with m show "take (length s) s2 = s" "data (s2 ! self) = data (s ! self)"
      "phase (s2 ! r2) = phase (s ! self)"
      "coordinate_format (s2 ! r2) = coordinate_format (s ! self)" by simp_all
  }
  {
    assume c: "call_symmetrise base s self unique return_multiplicity return_index = Inr (s3, r3, x3)"
    from new_object_keeps [OF c [unfolded call_symmetrise_def] l]
    obtain m where m: "Miller_symmetrise base (s ! self) unique return_multiplicity return_index = Inr (m, x3)"
      "take (length s) s3 = s" "s3 ! self = s ! self" "s3 ! r3 = m" by blast
    from m(1) have "phase m = phase (s ! self) \<and> coordinate_format m = coordinate_format (s ! self)"
      by (rule symmetrise_keeps)
    with m show "take (length s) s3 = s" "data (s3 ! self) = data (s ! self)"
      "phase (s3 ! r3) = phase (s ! self)"
      "coordinate_format (s3 ! r3) = coordinate_format (s ! self)" by simp_all
  }
  {
    assume c: "call_unique base s self use_symmetry return_index' = Inr (s4, r4, x4)"
    from new_object_keeps [OF c [unfolded call_unique_def] l]
    obtain m where m: "Miller_unique base (s ! self) use_symmetry return_index' = Inr (m, x4)"
      "take (length s) s4 = s" "s4 ! self = s ! self" "s4 ! r4 = m" by blast
    from m(1) have "phase m = phase (s ! self) \<and> coordinate_format m = coordinate_format (s ! self)"
      by (rule unique_keeps)
    with m show "take (length s) s4 = s" "data (s4 ! self) = data (s ! self)"
      "phase (s4 ! r4) = phase (s ! self)"
      "coordinate_format (s4 ! r4) = coordinate_format (s ! self)" by simp_all
  }
qed

lemma unit_example:
  "Miller_unit example_vector3d example_miller =
     Inr \<lparr>data = [(1, 0, 0), (0, 0, 1)], phase = Some example_phase, coordinate_format = ''hkl''\<rparr>"
  by (simp add: Miller_unit_def example_miller_def example_vector3d_def unit1_def Miller_init_xyz formats_def)

lemma getitem_example:
  "Miller_getitem example_miller (KInt (- 1)) =
     Inr \<lparr>data = [(0, 0, 2)], phase = Some example_phase, coordinate_format = ''hkl''\<rparr>"
  by (simp add: Miller_getitem_def example_miller_def np_getitem_def norm_index_def Miller_init_xyz formats_def)

lemma unique_example:
  "Miller_unique example_vector3d example_miller False True =
     Inr (\<lparr>data = [(0, 0, 2), (1, 0, 0)], phase = Some example_phase, coordinate_format = ''hkl''\<rparr>, Some [1, 0])"
  by (simp add: Miller_unique_def example_miller_def example_vector3d_def unique_non_zero_def is_non_zero_def
      first_index_def Miller_init_xyz formats_def)

theorem methods_keep_phase_and_format_witness:
  "(0 :: nat) < length [example_miller] \<and>
   call_getitem [example_miller] 0 (KInt (- 1)) =
     Inr ([example_miller,
           \<lparr>data = [(0, 0, 2)], phase = Some example_phase, coordinate_format = ''hkl''\<rparr>], 1, ()) \<and>
   call_unit example_vector3d [example_miller] 0 =
     Inr ([example_miller,
           \<lparr>data = [(1, 0, 0), (0, 0, 1)], phase = Some example_phase,
             coordinate_format = ''hkl''\<rparr>], 1, ()) \<and>
   call_symmetrise example_vector3d [example_miller] 0 True True True =
     Inr ([example_miller,
           \<lparr>data = [(- 1, 0, 0), (1, 0, 0), (0, 0, 2)], phase = Some example_phase,
             coordinate_format = ''hkl''\<rparr>], 1, Some [2, 1], Some [0, 0, 1]) \<and>
   call_unique example_vector3d [example_miller] 0 False True =
     Inr ([example_miller,
           \<lparr>data = [(0, 0, 2), (1, 0, 0)], phase = Some example_phase,
             coordinate_format = ''hkl''\<rparr>], 1, Some [1, 0]) \<and>
   phase example_miller = Some example_phase \<and> coordinate_format example_miller = ''hkl''"
  using methods_keep_phase_and_format [of 0 "[example_miller]" "KInt (- 1)"
      "[example_miller, \<lparr>data = [(0, 0, 2)], phase = Some example_phase, coordinate_format = ''hkl''\<rparr>]" 1 "()"
      example_vector3d
      "[example_miller, \<lparr>data = [(1, 0, 0), (0, 0, 1)], phase = Some example_phase, coordinate_format = ''hkl''\<rparr>]" 1 "()"
      True True True
      "[example_miller, \<lparr>data = [(- 1, 0, 0), (1, 0, 0), (0, 0, 2)], phase = Some example_phase, coordinate_format = ''hkl''\<rparr>]" 1 "(Some [2, 1], Some [0, 0, 1])"
      False True
      "[example_miller, \<lparr>data = [(0, 0, 2), (1, 0, 0)], phase = Some example_phase, coordinate_format = ''hkl''\<rparr>]" 1 "Some [1, 0]"]
    getitem_example unit_example symmetrise_example unique_example
  by (simp add: call_getitem_def call_unit_def call_symmetrise_def call_unique_def new_object_def no_extra_def
      example_miller_def)

section \<open>Rounding of indices\<close>

text \<open>
  Claim C8. Rounding the one triple \<open>[0.33, 0.33, 0.0]\<close> with \<open>max_index = 3\<close> gives the
  integer triple \<open>[1, 1, 0]\<close> (the batch of one triple is a list with one element).
\<close>

theorem round_indices_example: "round_indices (Triplets [(33 / 100, 33 / 100, 0)]) 3 = Inr (IntTriplets [(1, 1, 0)])"
  by (simp add: round_indices_def set_multiplier_def round_entry_def Let_def upto.simps
      scaled_error_def np_round_def rint_def argmin_def)

section \<open>Symmetrically equivalent vectors: multiplicities\<close>

lemma length_assign_slice: "length (assign_slice xs lo hi v) = length xs"
  by (simp add: assign_slice_def)

lemma symmetrise_step_Inr:
  assumes "symmetrise_step base v2 m i st = Inr st1"
  shows "length (fst (v3d_unique base (column v2 i))) \<le> m \<and>
         st_v3 st1 = (st_v3 st)[i := fst (v3d_unique base (column v2 i)) @
                                     drop (length (fst (v3d_unique base (column v2 i)))) (st_v3 st ! i)] \<and>
         st_multiplicity st1 = (st_multiplicity st)[i := int (length (fst (v3d_unique base (column v2 i))))] \<and>
         length (st_idx st1) = length (st_idx st)"
  using assms
  by (auto simp: symmetrise_step_def Let_def length_assign_slice split: if_splits)

lemma symmetrise_loop_result:
  assumes "symmetrise_loop base v2 m ixs st = Inr st'" "distinct ixs"
  shows "length (st_v3 st') = length (st_v3 st) \<and>
         length (st_multiplicity st') = length (st_multiplicity st) \<and>
         length (st_idx st') = length (st_idx st) \<and>
         (\<forall>i \<in> set ixs. length (fst (v3d_unique base (column v2 i))) \<le> m) \<and>
         (\<forall>i < length (st_v3 st).
            st_v3 st' ! i =
              (if i \<in> set ixs
               then fst (v3d_unique base (column v2 i)) @
                    drop (length (fst (v3d_unique base (column v2 i)))) (st_v3 st ! i)
               else st_v3 st ! i)) \<and>
         (\<forall>i < length (st_multiplicity st).
            st_multiplicity st' ! i =
              (if i \<in> set ixs then int (length (fst (v3d_unique base (column v2 i))))
               else st_multiplicity st ! i))"
  using assms
proof (induction ixs arbitrary: st)
  case Nil
  then show ?case by simp
next
  case (Cons i rest)
  from Cons.prems(1) obtain st1 where
    s1: "symmetrise_step base v2 m i st = Inr st1" and
    l1: "symmetrise_loop base v2 m rest st1 = Inr st'"
    by (auto split: sum.splits)
  note step = symmetrise_step_Inr [OF s1]
  from Cons.prems(2) have d: "distinct rest" and ni: "i \<notin> set rest" by simp_all
  note ih = Cons.IH [OF l1 d]
  have len: "length (st_v3 st1) = length (st_v3 st)"
    "length (st_multiplicity st1) = length (st_multiplicity st)"
    using step by simp_all
  show ?case
  proof (intro conjI allI impI ballI)
    show "length (st_v3 st') = length (st_v3 st)" using ih len by simp
    show "length (st_multiplicity st') = length (st_multiplicity st)" using ih len by simp
    show "length (st_idx st') = length (st_idx st)" using ih step by simp
  next
    fix j assume "j \<in> set (i # rest)"
    then show "length (fst (v3d_unique base (column v2 j))) \<le> m"
      using ih step by auto
  next
    fix j assume j: "j < length (st_v3 st)"
    then have "st_v3 st' ! j =
              (if j \<in> set rest
               then fst (v3d_unique base (column v2 j)) @
                    drop (length (fst (v3d_unique base (column v2 j)))) (st_v3 st1 ! j)
               else st_v3 st1 ! j)"
      using ih len by simp
    then show "st_v3 st' ! j =
              (if j \<in> set (i # rest)
               then fst (v3d_unique base (column v2 j)) @
                    drop (length (fst (v3d_unique base (column v2 j)))) (st_v3 st ! j)
               else st_v3 st ! j)"
      using step ni j by (cases "j = i") auto
  next
    fix j assume j: "j < length (st_multiplicity st)"
    then have "st_multiplicity st' ! j =
              (if j \<in> set rest then int (length (fst (v3d_unique base (column v2 j))))
               else st_multiplicity st1 ! j)"
      using ih len by simp
    then show "st_multiplicity st' ! j =
              (if j \<in> set (i # rest) then int (length (fst (v3d_unique base (column v2 j))))
               else st_multiplicity st ! j)"
      using step ni j by (cases "j = i") auto
  qed
qed


lemma not_non_zero_zero: "\<not> is_non_zero (0, 0, 0)"
  by (simp add: is_non_zero_def)

lemma int_sum_list: "int (sum_list (map f xs)) = sum_list (map (\<lambda>x. int (f x)) xs)"
  by (induction xs) simp_all

lemma sum_list_bounded:
  "(\<forall>x \<in> set xs. f x \<le> (m :: nat)) \<Longrightarrow> sum_list (map f xs) \<le> length xs * m"
  by (induction xs) auto

lemma symmetrise_unique_result:
  assumes r: "Miller_symmetrise base self True True True = Inr (m, Some multiplicity, Some idx)"
    and p: "phase self = Some p"
  shows "\<exists>st. symmetrise_loop base (outer (point_group p) (data self)) (length (point_group p))
                [0 ..< length (data self)]
                \<lparr>st_v3 = replicate (length (data self)) (replicate (length (point_group p)) (0, 0, 0)),
                 st_multiplicity = replicate (length (data self)) 0,
                 st_idx = replicate (length (data self) * length (point_group p)) (- 1),
                 st_l_accum = 0\<rparr> = Inr st \<and>
              data m = filter is_non_zero (concat (st_v3 st)) \<and>
              multiplicity = st_multiplicity st \<and>
              idx = take (length (data m)) (st_idx st)"
  using r p
  by (auto simp: Miller_symmetrise_def Let_def symmetrise_return_def Miller_init_xyz
      split: sum.splits if_splits)

text \<open>
  Claim C2. When \<^verbatim>\<open>symmetrise\<close> with \<open>unique\<close>, \<open>return_multiplicity\<close> and \<open>return_index\<close>
  returns for a batch of \<open>N\<close> vectors and a point group of \<open>M\<close> operations, there are \<open>N\<close>
  multiplicities, each between 0 and \<open>M\<close>, the number of returned vectors is their sum,
  and there is one index for each returned vector. The inherited \<^verbatim>\<open>unique\<close> is taken to
  return no zero vector (the zero entries of \<^verbatim>\<open>v3\<close> are what the code removes as padding).
\<close>

theorem symmetrise_multiplicity_sum:
  assumes r: "Miller_symmetrise base self True True True = Inr (m, Some multiplicity, Some idx)"
    and p: "phase self = Some p"
    and nz: "unique_drops_zero base"
  shows "length multiplicity = length (data self) \<and>
         (\<forall>k \<in> set multiplicity. 0 \<le> k \<and> k \<le> int (length (point_group p))) \<and>
         int (length (data m)) = sum_list multiplicity \<and>
         length idx = length (data m)"
proof -
  let ?n = "length (data self)"
  let ?M = "length (point_group p)"
  let ?v2 = "outer (point_group p) (data self)"
  let ?u = "\<lambda>i. fst (v3d_unique base (column ?v2 i))"
  let ?st0 = "\<lparr>st_v3 = replicate ?n (replicate ?M (0, 0, 0)),
                 st_multiplicity = replicate ?n (0 :: int),
                 st_idx = replicate (?n * ?M) (- 1 :: int),
                 st_l_accum = 0 :: nat\<rparr>"
  from symmetrise_unique_result [OF r p] obtain st where
    loop: "symmetrise_loop base ?v2 ?M [0 ..< ?n] ?st0 = Inr st" and
    dm: "data m = filter is_non_zero (concat (st_v3 st))" and
    mu: "multiplicity = st_multiplicity st" and
    ix: "idx = take (length (data m)) (st_idx st)"
    by blast
  note res = symmetrise_loop_result [OF loop distinct_upt]
  have lv: "length (st_v3 st) = ?n" and lm: "length (st_multiplicity st) = ?n"
    and li: "length (st_idx st) = ?n * ?M"
    using res by simp_all
  have bound: "\<forall>i < ?n. length (?u i) \<le> ?M" using res by simp
  have v3: "st_v3 st = map (\<lambda>i. ?u i @ replicate (?M - length (?u i)) (0, 0, 0)) [0 ..< ?n]"
  proof (rule nth_equalityI)
    show "length (st_v3 st) = length (map (\<lambda>i. ?u i @ replicate (?M - length (?u i)) (0, 0, 0)) [0 ..< ?n])"
      using lv by simp
  next
    fix i assume "i < length (st_v3 st)"
    then have i: "i < ?n" using lv by simp
    then have "st_v3 st ! i = ?u i @ drop (length (?u i)) (replicate ?M (0, 0, 0))"
      using res by simp
    then show "st_v3 st ! i = map (\<lambda>i. ?u i @ replicate (?M - length (?u i)) (0, 0, 0)) [0 ..< ?n] ! i"
      using i by simp
  qed
  have mult: "st_multiplicity st = map (\<lambda>i. int (length (?u i))) [0 ..< ?n]"
  proof (rule nth_equalityI)
    show "length (st_multiplicity st) = length (map (\<lambda>i. int (length (?u i))) [0 ..< ?n])"
      using lm by simp
  next
    fix i assume "i < length (st_multiplicity st)"
    then have i: "i < ?n" using lm by simp
    then have "st_multiplicity st ! i = int (length (?u i))" using res by simp
    then show "st_multiplicity st ! i = map (\<lambda>i. int (length (?u i))) [0 ..< ?n] ! i"
      using i by simp
  qed
  have keep: "filter is_non_zero (?u i) = ?u i" for i
    using nz by (simp add: filter_id_conv unique_drops_zero_def)
  have pad: "filter is_non_zero (replicate k (0, 0, 0)) = []" for k
    by (simp add: not_non_zero_zero)
  have "data m = concat (map ?u [0 ..< ?n])"
    unfolding dm v3 by (simp add: filter_concat comp_def keep pad)
  then have ld: "length (data m) = sum_list (map (\<lambda>i. length (?u i)) [0 ..< ?n])"
    by (simp add: length_concat comp_def)
  have "int (sum_list (map (\<lambda>i. length (?u i)) [0 ..< ?n])) = sum_list (map (\<lambda>i. int (length (?u i))) [0 ..< ?n])"
    by (rule int_sum_list)
  then have total: "int (length (data m)) = sum_list multiplicity"
    using ld mu mult by simp
  have "sum_list (map (\<lambda>i. length (?u i)) [0 ..< ?n]) \<le> length [0 ..< ?n] * ?M"
    using bound by (intro sum_list_bounded) simp
  then have "length (data m) \<le> length (st_idx st)" using ld li by simp
  then have lidx: "length idx = length (data m)" using ix by simp
  have each: "\<forall>k \<in> set multiplicity. 0 \<le> k \<and> k \<le> int ?M"
    using mu mult bound by auto
  show ?thesis using mu lm total lidx each by simp
qed


text \<open>
  The assumption is needed: were the inherited \<^verbatim>\<open>unique\<close> to keep a zero vector, the zero
  vector would be counted with multiplicity 1 and then removed with the padding.
\<close>

lemma symmetrise_zero_vector_kept_by_unique:
  "Miller_symmetrise (example_vector3d\<lparr>v3d_unique := \<lambda>vs. (remdups vs, [])\<rparr>)
     (example_miller\<lparr>data := [(0, 0, 0)]\<rparr>) True True True =
     Inr (\<lparr>data = [], phase = Some example_phase, coordinate_format = ''hkl''\<rparr>,
          Some [1], Some [])"
  by (simp add: Miller_symmetrise_def example_miller_def example_phase_def example_vector3d_def
      outer_def half_turn_def symmetrise_step_def column_def assign_slice_def is_non_zero_def
      symmetrise_return_def Miller_init_xyz formats_def Let_def upt_0_2)

lemma unique_non_zero_set: "unique_drops_zero example_vector3d"
  by (simp add: unique_drops_zero_def example_vector3d_def unique_non_zero_def Let_def)

theorem symmetrise_multiplicity_sum_witness:
  "Miller_symmetrise example_vector3d example_miller True True True =
     Inr (\<lparr>data = [(- 1, 0, 0), (1, 0, 0), (0, 0, 2)], phase = Some example_phase,
            coordinate_format = ''hkl''\<rparr>,
          Some [2, 1], Some [0, 0, 1]) \<and>
   phase example_miller = Some example_phase \<and>
   unique_drops_zero example_vector3d \<and>
   length [2 :: int, 1] = length (data example_miller) \<and>
   (0 :: int) \<le> 2 \<and> 2 \<le> int (length (point_group example_phase)) \<and>
   (0 :: int) \<le> 1 \<and> 1 \<le> int (length (point_group example_phase)) \<and>
   int (length [(- 1, 0, 0), (1, 0, 0), (0, 0, 2) :: vec3]) = sum_list [2, 1] \<and>
   length [0 :: int, 0, 1] = length [(- 1, 0, 0), (1, 0, 0), (0, 0, 2) :: vec3]"
  using symmetrise_multiplicity_sum [of example_vector3d example_miller
      "\<lparr>data = [(- 1, 0, 0), (1, 0, 0), (0, 0, 2)], phase = Some example_phase,
        coordinate_format = ''hkl''\<rparr>" "[2, 1]" "[0, 0, 1]" example_phase]
    symmetrise_example unique_non_zero_set
  by (simp add: example_miller_def example_vector3d_def example_phase_def)


end
